theory Spec2Isabelle
  imports Main "HOL-Library.Sublist"
begin

section \<open>Python values used by the application\<close>

text \<open>
  Strings are lists of 8-bit characters. The Arabic literals of the source (flash
  messages, the default sector, the ready status) are carried as their UTF-8 bytes or
  as constructors of a message type; no property below depends on their spelling.
\<close>

datatype error =
    FileNotFoundError | JSONDecodeError | UnicodeDecodeError | OSError
  | ValueError | IllegalMonthError | OverflowError

text \<open>\<^verbatim>\<open>str.isspace\<close> on the ASCII range: tab, LF, VT, FF, CR, FS, GS, RS, US, space.\<close>

definition isspace :: "char \<Rightarrow> bool" where
  "isspace c = (let n = (of_char c :: nat) in (9 \<le> n \<and> n \<le> 13) \<or> (28 \<le> n \<and> n \<le> 32))"

definition strip :: "string \<Rightarrow> string" where
  "strip s = rev (dropWhile isspace (rev (dropWhile isspace s)))"

fun startswith :: "string \<Rightarrow> string \<Rightarrow> bool" where
  "startswith s [] = True"
| "startswith [] (p # ps) = False"
| "startswith (c # cs) (p # ps) = (c = p \<and> startswith cs ps)"

text \<open>\<^verbatim>\<open>s.split(sep)\<close> for a one-character separator: never returns the empty list.\<close>

fun split :: "char \<Rightarrow> string \<Rightarrow> string list" where
  "split sep [] = [[]]"
| "split sep (c # cs) =
     (if c = sep then [] # split sep cs
      else (case split sep cs of w # ws \<Rightarrow> (c # w) # ws | [] \<Rightarrow> [[c]]))"

definition is_digit :: "char \<Rightarrow> bool" where
  "is_digit c = (let n = (of_char c :: nat) in 48 \<le> n \<and> n \<le> 57)"

definition digit_val :: "char \<Rightarrow> nat" where
  "digit_val c = of_char c - 48"

definition digit_char :: "nat \<Rightarrow> char" where
  "digit_char d = char_of (48 + d)"

text \<open>
  \<^verbatim>\<open>int(s)\<close> on a string, base 10: surrounding whitespace is stripped, one sign is
  allowed, then digits, where a single underscore may stand between two digits.
  Anything else raises \<^verbatim>\<open>ValueError\<close>.
\<close>

fun int_digits :: "nat \<Rightarrow> string \<Rightarrow> nat option" where
  "int_digits acc [] = Some acc"
| "int_digits acc (c # cs) =
     (if is_digit c then int_digits (10 * acc + digit_val c) cs
      else if c = CHR ''_'' then
        (case cs of
           [] \<Rightarrow> None
         | d # ds \<Rightarrow> if is_digit d then int_digits (10 * acc + digit_val d) ds else None)
      else None)"

definition int_unsigned :: "string \<Rightarrow> nat option" where
  "int_unsigned s =
     (case s of [] \<Rightarrow> None
      | c # cs \<Rightarrow> if is_digit c then int_digits (digit_val c) cs else None)"

definition py_int :: "string \<Rightarrow> error + int" where
  "py_int s =
     (let t = strip s;
          r = (case t of
                 [] \<Rightarrow> None
               | c # cs \<Rightarrow>
                   if c = CHR ''-'' then map_option (\<lambda>n. - int n) (int_unsigned cs)
                   else if c = CHR ''+'' then map_option int (int_unsigned cs)
                   else map_option int (int_unsigned t))
      in case r of None \<Rightarrow> Inl ValueError | Some v \<Rightarrow> Inr v)"

text \<open>Decimal digits of a natural number, most significant first.\<close>

fun digits :: "nat \<Rightarrow> string" where
  "digits n = (if n < 10 then [digit_char n] else digits (n div 10) @ [digit_char (n mod 10)])"

declare digits.simps [simp del]

text \<open>The format specification \<^verbatim>\<open>{n:0wd}\<close>: zero padding to width \<open>w\<close>, sign first.\<close>

definition fmt0d :: "nat \<Rightarrow> int \<Rightarrow> string" where
  "fmt0d w n =
     (if n < 0
      then CHR ''-'' # replicate (w - 1 - length (digits (nat (- n)))) CHR ''0'' @ digits (nat (- n))
      else replicate (w - length (digits (nat n))) CHR ''0'' @ digits (nat n))"

section \<open>Calendar arithmetic of the standard library\<close>

text \<open>
  \<^verbatim>\<open>calendar.isleap\<close>, \<^verbatim>\<open>calendar.monthrange\<close> (its second component) and the
  ordinal conversions behind \<^verbatim>\<open>datetime - timedelta\<close>.
\<close>

definition isleap :: "int \<Rightarrow> bool" where
  "isleap year = (year mod 4 = 0 \<and> (year mod 100 \<noteq> 0 \<or> year mod 400 = 0))"

definition mdays :: "int list" where
  "mdays = [0, 31, 28, 31, 30, 31, 30, 31, 31, 30, 31, 30, 31]"

definition monthrange_days :: "int \<Rightarrow> int \<Rightarrow> error + int" where
  "monthrange_days year month =
     (if \<not> (1 \<le> month \<and> month \<le> 12) then Inl IllegalMonthError
      else Inr (mdays ! nat month + (if month = 2 \<and> isleap year then 1 else 0)))"

record datetime =
  dt_year :: int
  dt_month :: int
  dt_day :: int

definition days_before_year :: "int \<Rightarrow> int" where
  "days_before_year year = (let y = year - 1 in y * 365 + y div 4 - y div 100 + y div 400)"

definition days_before_month_tab :: "int list" where
  "days_before_month_tab = [0, 0, 31, 59, 90, 120, 151, 181, 212, 243, 273, 304, 334]"

definition days_before_month :: "int \<Rightarrow> int \<Rightarrow> int" where
  "days_before_month year month =
     days_before_month_tab ! nat month + (if month > 2 \<and> isleap year then 1 else 0)"

definition ymd2ord :: "int \<Rightarrow> int \<Rightarrow> int \<Rightarrow> int" where
  "ymd2ord year month day = days_before_year year + days_before_month year month + day"

definition ord2ymd :: "int \<Rightarrow> datetime" where
  "ord2ymd n0 =
     (let n = n0 - 1;
          n400 = n div 146097; n = n mod 146097;
          year = n400 * 400 + 1;
          n100 = n div 36524; n = n mod 36524;
          n4 = n div 1461; n = n mod 1461;
          n1 = n div 365; n = n mod 365;
          year = year + n100 * 100 + n4 * 4 + n1
      in if n1 = 4 \<or> n100 = 4 then \<lparr>dt_year = year - 1, dt_month = 12, dt_day = 31\<rparr>
         else
           let leapyear = (n1 = 3 \<and> (n4 \<noteq> 24 \<or> n100 = 3));
               month = (n + 50) div 32;
               preceding = days_before_month_tab ! nat month
                             + (if month > 2 \<and> leapyear then 1 else 0)
           in if preceding > n
              then let month = month - 1;
                       preceding = preceding
                          - (mdays ! nat month + (if month = 2 \<and> leapyear then 1 else 0))
                   in \<lparr>dt_year = year, dt_month = month, dt_day = n - preceding + 1\<rparr>
              else \<lparr>dt_year = year, dt_month = month, dt_day = n - preceding + 1\<rparr>)"

definition maxordinal :: int where
  "maxordinal = 3652059"

text \<open>
  \<^verbatim>\<open>dt + timedelta(days=k)\<close>; the time of day is untouched by a whole number of
  days and is left out of the model. A result outside years 1..9999 raises.
\<close>

definition add_days :: "datetime \<Rightarrow> int \<Rightarrow> error + datetime" where
  "add_days dt k =
     (let n = ymd2ord (dt_year dt) (dt_month dt) (dt_day dt) + k
      in if 0 < n \<and> n \<le> maxordinal then Inr (ord2ymd n) else Inl OverflowError)"

text \<open>\<^verbatim>\<open>strftime('%Y-%m-%d')\<close> and \<^verbatim>\<open>strftime('%Y-%m')\<close>.\<close>

definition strftime_ymd :: "datetime \<Rightarrow> string" where
  "strftime_ymd dt =
     fmt0d 4 (dt_year dt) @ ''-'' @ fmt0d 2 (dt_month dt) @ ''-'' @ fmt0d 2 (dt_day dt)"

definition strftime_ym :: "datetime \<Rightarrow> string" where
  "strftime_ym dt = fmt0d 4 (dt_year dt) @ ''-'' @ fmt0d 2 (dt_month dt)"

section \<open>Records and the record store (\<^verbatim>\<open>data_manager.py\<close>)\<close>

record employee =
  emp_code :: string
  emp_name :: string
  emp_phone :: string
  emp_role :: string

record ambulance =
  amb_plate :: string
  amb_model :: string
  amb_status :: string
  amb_last_service :: string
  amb_notes :: string

record shift =
  shift_date :: string
  shift_period :: string
  shift_employee_code :: string
  shift_sector :: string
  shift_chief_name :: string

record team =
  team_date :: string
  team_morning_teams :: string
  team_evening_teams :: string
  team_full_teams :: string
  team_notes :: string

record task =
  task_employee_name :: string
  task_task_description :: string
  task_supervisor_name :: string
  task_created_at :: string
  task_updated_at :: "string option"

text \<open>
  Well-formed UTF-8, as the strict \<^verbatim>\<open>utf-8\<close> codec accepts it: no stray or missing
  continuation byte, no overlong form, no surrogate, nothing above U+10FFFF.
\<close>

definition byte :: "char \<Rightarrow> nat" where
  "byte c = of_char c"

definition in_range :: "char \<Rightarrow> nat \<Rightarrow> nat \<Rightarrow> bool" where
  "in_range c lo hi = (lo \<le> byte c \<and> byte c \<le> hi)"

fun utf8_valid :: "char list \<Rightarrow> bool" where
  "utf8_valid [] = True"
| "utf8_valid (b0 # bs) =
     (let n = byte b0 in
      if n < 0x80 then utf8_valid bs
      else if 0xC2 \<le> n \<and> n \<le> 0xDF then
        (case bs of
           b1 # r \<Rightarrow> in_range b1 0x80 0xBF \<and> utf8_valid r
         | _ \<Rightarrow> False)
      else if 0xE0 \<le> n \<and> n \<le> 0xEF then
        (case bs of
           b1 # b2 # r \<Rightarrow>
             in_range b1 (if n = 0xE0 then 0xA0 else 0x80) (if n = 0xED then 0x9F else 0xBF)
             \<and> in_range b2 0x80 0xBF \<and> utf8_valid r
         | _ \<Rightarrow> False)
      else if 0xF0 \<le> n \<and> n \<le> 0xF4 then
        (case bs of
           b1 # b2 # b3 # r \<Rightarrow>
             in_range b1 (if n = 0xF0 then 0x90 else 0x80) (if n = 0xF4 then 0x8F else 0xBF)
             \<and> in_range b2 0x80 0xBF \<and> in_range b3 0x80 0xBF \<and> utf8_valid r
         | _ \<Rightarrow> False)
      else False)"

declare utf8_valid.simps [simp del]

text \<open>
  The state of one JSON file on disk. \<open>Missing\<close>: there is no such file. \<open>Unreadable\<close>:
  the operating system refuses to open or read it (permissions, a directory).
  \<open>Garbled bs\<close>: the file holds the bytes \<open>bs\<close>, which are not a JSON document (a
  truncated or foreign file). \<open>Stored xs\<close>: the file holds the JSON text of the list
  \<open>xs\<close>, as \<^verbatim>\<open>_save_json\<close> writes it.
\<close>

datatype 'a json_file = Missing | Unreadable | Garbled "char list" | Stored "'a list"

record store =
  employees_file :: "employee json_file"
  ambulances_file :: "ambulance json_file"
  shifts_file :: "shift json_file"
  teams_file :: "team json_file"
  tasks_file :: "task json_file"

text \<open>
  The body of the \<^verbatim>\<open>try\<close> in \<^verbatim>\<open>_load_json\<close>: \<^verbatim>\<open>open(file_path, 'r', encoding='utf-8')\<close>
  and \<^verbatim>\<open>json.load\<close>. The text is decoded before it is parsed, so bytes that are not
  UTF-8 raise \<^verbatim>\<open>UnicodeDecodeError\<close> and only decodable text reaches the parser, which
  raises \<^verbatim>\<open>json.JSONDecodeError\<close> on what is no JSON document.
\<close>

definition read_json :: "'a json_file \<Rightarrow> error + 'a list" where
  "read_json f =
     (case f of
        Missing \<Rightarrow> Inl FileNotFoundError
      | Unreadable \<Rightarrow> Inl OSError
      | Garbled bs \<Rightarrow> if utf8_valid bs then Inl JSONDecodeError else Inl UnicodeDecodeError
      | Stored xs \<Rightarrow> Inr xs)"

text \<open>
  \<^verbatim>\<open>_load_json\<close>: \<^verbatim>\<open>except (FileNotFoundError, json.JSONDecodeError)\<close> returns the
  empty list; every other exception leaves the function.
\<close>

definition load_json :: "'a json_file \<Rightarrow> error + 'a list" where
  "load_json f =
     (case read_json f of
        Inr xs \<Rightarrow> Inr xs
      | Inl e \<Rightarrow> if e = FileNotFoundError \<or> e = JSONDecodeError then Inr [] else Inl e)"

text \<open>\<^verbatim>\<open>_save_json\<close> replaces the file's content; a failing disk is outside the model.\<close>

definition save_json :: "'a list \<Rightarrow> 'a json_file" where
  "save_json xs = Stored xs"

fun replace_first :: "('a \<Rightarrow> bool) \<Rightarrow> 'a \<Rightarrow> 'a list \<Rightarrow> 'a list" where
  "replace_first P y [] = []"
| "replace_first P y (x # xs) = (if P x then y # xs else x # replace_first P y xs)"

text \<open>\<^verbatim>\<open>xs.pop(i)\<close> for an index already known to be in range.\<close>

definition pop :: "nat \<Rightarrow> 'a list \<Rightarrow> 'a list" where
  "pop i xs = take i xs @ drop (Suc i) xs"

definition get_employees :: "store \<Rightarrow> error + employee list" where
  "get_employees st = load_json (employees_file st)"

definition dm_add_employee :: "employee \<Rightarrow> store \<Rightarrow> error + store" where
  "dm_add_employee e st =
     (case get_employees st of Inl err \<Rightarrow> Inl err
      | Inr employees \<Rightarrow> Inr (st\<lparr>employees_file := save_json (employees @ [e])\<rparr>))"

definition dm_update_employee :: "string \<Rightarrow> employee \<Rightarrow> store \<Rightarrow> error + store" where
  "dm_update_employee c e st =
     (case get_employees st of Inl err \<Rightarrow> Inl err
      | Inr employees \<Rightarrow>
          Inr (st\<lparr>employees_file :=
                    save_json (replace_first (\<lambda>emp. emp_code emp = c) e employees)\<rparr>))"

definition dm_delete_employee :: "string \<Rightarrow> store \<Rightarrow> error + store" where
  "dm_delete_employee c st =
     (case get_employees st of Inl err \<Rightarrow> Inl err
      | Inr employees \<Rightarrow>
          Inr (st\<lparr>employees_file := save_json [emp \<leftarrow> employees. emp_code emp \<noteq> c]\<rparr>))"

definition get_ambulances :: "store \<Rightarrow> error + ambulance list" where
  "get_ambulances st = load_json (ambulances_file st)"

definition dm_add_ambulance :: "ambulance \<Rightarrow> store \<Rightarrow> error + store" where
  "dm_add_ambulance a st =
     (case get_ambulances st of Inl err \<Rightarrow> Inl err
      | Inr ambulances \<Rightarrow> Inr (st\<lparr>ambulances_file := save_json (ambulances @ [a])\<rparr>))"

definition dm_update_ambulance :: "string \<Rightarrow> ambulance \<Rightarrow> store \<Rightarrow> error + store" where
  "dm_update_ambulance p a st =
     (case get_ambulances st of Inl err \<Rightarrow> Inl err
      | Inr ambulances \<Rightarrow>
          Inr (st\<lparr>ambulances_file :=
                    save_json (replace_first (\<lambda>amb. amb_plate amb = p) a ambulances)\<rparr>))"

definition dm_delete_ambulance :: "string \<Rightarrow> store \<Rightarrow> error + store" where
  "dm_delete_ambulance p st =
     (case get_ambulances st of Inl err \<Rightarrow> Inl err
      | Inr ambulances \<Rightarrow>
          Inr (st\<lparr>ambulances_file := save_json [amb \<leftarrow> ambulances. amb_plate amb \<noteq> p]\<rparr>))"

definition get_shifts :: "store \<Rightarrow> error + shift list" where
  "get_shifts st = load_json (shifts_file st)"

definition dm_add_shift :: "shift \<Rightarrow> store \<Rightarrow> error + store" where
  "dm_add_shift s st =
     (case get_shifts st of Inl err \<Rightarrow> Inl err
      | Inr shifts \<Rightarrow> Inr (st\<lparr>shifts_file := save_json (shifts @ [s])\<rparr>))"

definition dm_update_shift :: "int \<Rightarrow> shift \<Rightarrow> store \<Rightarrow> error + store" where
  "dm_update_shift shift_id s st =
     (case get_shifts st of Inl err \<Rightarrow> Inl err
      | Inr shifts \<Rightarrow>
          if 0 \<le> shift_id \<and> shift_id < int (length shifts)
          then Inr (st\<lparr>shifts_file := save_json (shifts[nat shift_id := s])\<rparr>)
          else Inr st)"

definition dm_delete_shift :: "int \<Rightarrow> store \<Rightarrow> error + store" where
  "dm_delete_shift shift_id st =
     (case get_shifts st of Inl err \<Rightarrow> Inl err
      | Inr shifts \<Rightarrow>
          if 0 \<le> shift_id \<and> shift_id < int (length shifts)
          then Inr (st\<lparr>shifts_file := save_json (pop (nat shift_id) shifts)\<rparr>)
          else Inr st)"

definition get_teams :: "store \<Rightarrow> error + team list" where
  "get_teams st = load_json (teams_file st)"

definition dm_add_team :: "team \<Rightarrow> store \<Rightarrow> error + store" where
  "dm_add_team t st =
     (case get_teams st of Inl err \<Rightarrow> Inl err
      | Inr teams \<Rightarrow> Inr (st\<lparr>teams_file := save_json (teams @ [t])\<rparr>))"

definition dm_update_team :: "int \<Rightarrow> team \<Rightarrow> store \<Rightarrow> error + store" where
  "dm_update_team team_id t st =
     (case get_teams st of Inl err \<Rightarrow> Inl err
      | Inr teams \<Rightarrow>
          if 0 \<le> team_id \<and> team_id < int (length teams)
          then Inr (st\<lparr>teams_file := save_json (teams[nat team_id := t])\<rparr>)
          else Inr st)"

definition dm_delete_team :: "int \<Rightarrow> store \<Rightarrow> error + store" where
  "dm_delete_team team_id st =
     (case get_teams st of Inl err \<Rightarrow> Inl err
      | Inr teams \<Rightarrow>
          if 0 \<le> team_id \<and> team_id < int (length teams)
          then Inr (st\<lparr>teams_file := save_json (pop (nat team_id) teams)\<rparr>)
          else Inr st)"

definition get_tasks :: "store \<Rightarrow> error + task list" where
  "get_tasks st = load_json (tasks_file st)"

definition dm_add_task :: "task \<Rightarrow> store \<Rightarrow> error + store" where
  "dm_add_task t st =
     (case get_tasks st of Inl err \<Rightarrow> Inl err
      | Inr tasks \<Rightarrow> Inr (st\<lparr>tasks_file := save_json (tasks @ [t])\<rparr>))"

definition dm_update_task :: "int \<Rightarrow> task \<Rightarrow> store \<Rightarrow> error + store" where
  "dm_update_task task_id t st =
     (case get_tasks st of Inl err \<Rightarrow> Inl err
      | Inr tasks \<Rightarrow>
          if 0 \<le> task_id \<and> task_id < int (length tasks)
          then Inr (st\<lparr>tasks_file := save_json (tasks[nat task_id := t])\<rparr>)
          else Inr st)"

definition dm_delete_task :: "int \<Rightarrow> store \<Rightarrow> error + store" where
  "dm_delete_task task_id st =
     (case get_tasks st of Inl err \<Rightarrow> Inl err
      | Inr tasks \<Rightarrow>
          if 0 \<le> task_id \<and> task_id < int (length tasks)
          then Inr (st\<lparr>tasks_file := save_json (pop (nat task_id) tasks)\<rparr>)
          else Inr st)"

section \<open>Request handlers (\<^verbatim>\<open>app.py\<close>)\<close>

text \<open>
  A form (or query string) is a dictionary from field names to strings. Every handler
  flashes one message and leaves a store; the redirect target is fixed per handler and
  is not modelled. A handler's \<^verbatim>\<open>except Exception\<close> branch is the \<open>Inl\<close> case of
  each call it wraps.
\<close>

type_synonym form = "string \<rightharpoonup> string"

definition form_get :: "form \<Rightarrow> string \<Rightarrow> string \<Rightarrow> string" where
  "form_get f k d = (case f k of None \<Rightarrow> d | Some v \<Rightarrow> v)"

datatype category = CatError | CatSuccess

datatype message =
    AllFieldsRequired | EmployeeCodeExists | EmployeeAdded | AddEmployeeFailed
  | EmployeeUpdated | EditEmployeeFailed | EmployeeDeleted | DeleteEmployeeFailed
  | AmbulanceFieldsRequired | PlateExists | AmbulanceAdded | AddAmbulanceFailed
  | AmbulanceEditFieldsRequired | AmbulanceUpdated | EditAmbulanceFailed
  | AmbulanceDeleted | DeleteAmbulanceFailed
  | ShiftFieldsRequired | EmployeeCodeNotFound | ShiftAdded | AddShiftFailed
  | ShiftUpdated | EditShiftFailed | ShiftDeleted | DeleteShiftFailed
  | RosterIncomplete | RosterUpdated | UpdateRosterFailed
  | DashboardFailed | RosterFailed

type_synonym flash = "category \<times> message"

subsection \<open>Employees\<close>

definition add_employee :: "form \<Rightarrow> store \<Rightarrow> flash \<times> store" where
  "add_employee f st =
     (let code = strip (form_get f ''code'' []);
          name = strip (form_get f ''name'' []);
          phone = strip (form_get f ''phone'' []);
          role = strip (form_get f ''role'' [])
      in if \<not> (code \<noteq> [] \<and> name \<noteq> [] \<and> phone \<noteq> [] \<and> role \<noteq> [])
         then ((CatError, AllFieldsRequired), st)
         else
           (case get_employees st of
              Inl err \<Rightarrow> ((CatError, AddEmployeeFailed), st)
            | Inr employees \<Rightarrow>
                if list_ex (\<lambda>emp. emp_code emp = code) employees
                then ((CatError, EmployeeCodeExists), st)
                else
                  (case dm_add_employee
                          \<lparr>emp_code = code, emp_name = name, emp_phone = phone, emp_role = role\<rparr> st of
                     Inl err \<Rightarrow> ((CatError, AddEmployeeFailed), st)
                   | Inr st' \<Rightarrow> ((CatSuccess, EmployeeAdded), st'))))"

definition edit_employee :: "string \<Rightarrow> form \<Rightarrow> store \<Rightarrow> flash \<times> store" where
  "edit_employee code f st =
     (let name = strip (form_get f ''name'' []);
          phone = strip (form_get f ''phone'' []);
          role = strip (form_get f ''role'' [])
      in if \<not> (name \<noteq> [] \<and> phone \<noteq> [] \<and> role \<noteq> [])
         then ((CatError, AllFieldsRequired), st)
         else
           (case dm_update_employee code
                   \<lparr>emp_code = code, emp_name = name, emp_phone = phone, emp_role = role\<rparr> st of
              Inl err \<Rightarrow> ((CatError, EditEmployeeFailed), st)
            | Inr st' \<Rightarrow> ((CatSuccess, EmployeeUpdated), st')))"

definition delete_employee :: "string \<Rightarrow> store \<Rightarrow> flash \<times> store" where
  "delete_employee code st =
     (case dm_delete_employee code st of
        Inl err \<Rightarrow> ((CatError, DeleteEmployeeFailed), st)
      | Inr st' \<Rightarrow> ((CatSuccess, EmployeeDeleted), st'))"

subsection \<open>Ambulances\<close>

definition add_ambulance :: "form \<Rightarrow> store \<Rightarrow> flash \<times> store" where
  "add_ambulance f st =
     (let plate = strip (form_get f ''plate'' []);
          model = strip (form_get f ''model'' []);
          status = strip (form_get f ''status'' []);
          last_service = strip (form_get f ''last_service'' []);
          notes = strip (form_get f ''notes'' [])
      in if \<not> (plate \<noteq> [] \<and> model \<noteq> [] \<and> status \<noteq> [])
         then ((CatError, AmbulanceFieldsRequired), st)
         else
           (case get_ambulances st of
              Inl err \<Rightarrow> ((CatError, AddAmbulanceFailed), st)
            | Inr ambulances \<Rightarrow>
                if list_ex (\<lambda>amb. amb_plate amb = plate) ambulances
                then ((CatError, PlateExists), st)
                else
                  (case dm_add_ambulance
                          \<lparr>amb_plate = plate, amb_model = model, amb_status = status,
                           amb_last_service = last_service, amb_notes = notes\<rparr> st of
                     Inl err \<Rightarrow> ((CatError, AddAmbulanceFailed), st)
                   | Inr st' \<Rightarrow> ((CatSuccess, AmbulanceAdded), st'))))"

definition edit_ambulance :: "string \<Rightarrow> form \<Rightarrow> store \<Rightarrow> flash \<times> store" where
  "edit_ambulance plate f st =
     (let model = strip (form_get f ''model'' []);
          status = strip (form_get f ''status'' []);
          last_service = strip (form_get f ''last_service'' []);
          notes = strip (form_get f ''notes'' [])
      in if \<not> (model \<noteq> [] \<and> status \<noteq> [])
         then ((CatError, AmbulanceEditFieldsRequired), st)
         else
           (case dm_update_ambulance plate
                   \<lparr>amb_plate = plate, amb_model = model, amb_status = status,
                    amb_last_service = last_service, amb_notes = notes\<rparr> st of
              Inl err \<Rightarrow> ((CatError, EditAmbulanceFailed), st)
            | Inr st' \<Rightarrow> ((CatSuccess, AmbulanceUpdated), st')))"

definition delete_ambulance :: "string \<Rightarrow> store \<Rightarrow> flash \<times> store" where
  "delete_ambulance plate st =
     (case dm_delete_ambulance plate st of
        Inl err \<Rightarrow> ((CatError, DeleteAmbulanceFailed), st)
      | Inr st' \<Rightarrow> ((CatSuccess, AmbulanceDeleted), st'))"

subsection \<open>Shifts\<close>

definition add_shift :: "form \<Rightarrow> store \<Rightarrow> flash \<times> store" where
  "add_shift f st =
     (let date = strip (form_get f ''date'' []);
          period = strip (form_get f ''period'' []);
          employee_code = strip (form_get f ''employee_code'' []);
          sector = strip (form_get f ''sector'' []);
          chief_name = strip (form_get f ''chief_name'' [])
      in if \<not> (date \<noteq> [] \<and> period \<noteq> [] \<and> employee_code \<noteq> [] \<and> sector \<noteq> [])
         then ((CatError, ShiftFieldsRequired), st)
         else
           (case get_employees st of
              Inl err \<Rightarrow> ((CatError, AddShiftFailed), st)
            | Inr employees \<Rightarrow>
                if \<not> list_ex (\<lambda>emp. emp_code emp = employee_code) employees
                then ((CatError, EmployeeCodeNotFound), st)
                else
                  (case dm_add_shift
                          \<lparr>shift_date = date, shift_period = period,
                           shift_employee_code = employee_code, shift_sector = sector,
                           shift_chief_name = chief_name\<rparr> st of
                     Inl err \<Rightarrow> ((CatError, AddShiftFailed), st)
                   | Inr st' \<Rightarrow> ((CatSuccess, ShiftAdded), st'))))"

definition edit_shift :: "int \<Rightarrow> form \<Rightarrow> store \<Rightarrow> flash \<times> store" where
  "edit_shift shift_id f st =
     (let date = strip (form_get f ''date'' []);
          period = strip (form_get f ''period'' []);
          employee_code = strip (form_get f ''employee_code'' []);
          sector = strip (form_get f ''sector'' []);
          chief_name = strip (form_get f ''chief_name'' [])
      in if \<not> (date \<noteq> [] \<and> period \<noteq> [] \<and> employee_code \<noteq> [] \<and> sector \<noteq> [])
         then ((CatError, ShiftFieldsRequired), st)
         else
           (case get_employees st of
              Inl err \<Rightarrow> ((CatError, EditShiftFailed), st)
            | Inr employees \<Rightarrow>
                if \<not> list_ex (\<lambda>emp. emp_code emp = employee_code) employees
                then ((CatError, EmployeeCodeNotFound), st)
                else
                  (case dm_update_shift shift_id
                          \<lparr>shift_date = date, shift_period = period,
                           shift_employee_code = employee_code, shift_sector = sector,
                           shift_chief_name = chief_name\<rparr> st of
                     Inl err \<Rightarrow> ((CatError, EditShiftFailed), st)
                   | Inr st' \<Rightarrow> ((CatSuccess, ShiftUpdated), st'))))"

definition delete_shift :: "int \<Rightarrow> store \<Rightarrow> flash \<times> store" where
  "delete_shift shift_id st =
     (case dm_delete_shift shift_id st of
        Inl err \<Rightarrow> ((CatError, DeleteShiftFailed), st)
      | Inr st' \<Rightarrow> ((CatSuccess, ShiftDeleted), st'))"

subsection \<open>Roster update\<close>

text \<open>The index of the first element satisfying \<open>P\<close>: the \<^verbatim>\<open>enumerate\<close> loop with \<^verbatim>\<open>break\<close>.\<close>

fun first_index :: "('a \<Rightarrow> bool) \<Rightarrow> 'a list \<Rightarrow> nat option" where
  "first_index P [] = None"
| "first_index P (x # xs) = (if P x then Some 0 else map_option Suc (first_index P xs))"

text \<open>The default sector, an Arabic word, as UTF-8 bytes.\<close>

definition default_sector :: string where
  "default_sector = [CHR 0xD8, CHR 0xB9, CHR 0xD8, CHR 0xA7, CHR 0xD9, CHR 0x85]"

text \<open>
  The fields \<open>month\<close>, \<open>employee_code\<close> and \<open>date\<close> are read without a default; an
  absent field is \<^verbatim>\<open>None\<close>, which the completeness test rejects exactly as it
  rejects the empty string, so both are read here as the empty string.
\<close>

definition update_roster :: "form \<Rightarrow> store \<Rightarrow> flash \<times> store" where
  "update_roster f st =
     (let month = form_get f ''month'' [];
          employee_code = form_get f ''employee_code'' [];
          date = form_get f ''date'' [];
          period = strip (form_get f ''period'' [])
      in if \<not> (month \<noteq> [] \<and> employee_code \<noteq> [] \<and> date \<noteq> [])
         then ((CatError, RosterIncomplete), st)
         else
           (case get_shifts st of
              Inl err \<Rightarrow> ((CatError, UpdateRosterFailed), st)
            | Inr shifts \<Rightarrow>
                let existing_shift_id =
                      first_index (\<lambda>s. shift_employee_code s = employee_code
                                       \<and> shift_date s = date) shifts;
                    r = (if period \<noteq> [] \<and> period \<noteq> ''O''
                         then
                           (let shift_data =
                                  \<lparr>shift_date = date, shift_period = period,
                                   shift_employee_code = employee_code,
                                   shift_sector = default_sector, shift_chief_name = []\<rparr>
                            in case existing_shift_id of
                                 Some i \<Rightarrow> dm_update_shift (int i) shift_data st
                               | None \<Rightarrow> dm_add_shift shift_data st)
                         else
                           (case existing_shift_id of
                              Some i \<Rightarrow> dm_delete_shift (int i) st
                            | None \<Rightarrow> Inr st))
                in case r of
                     Inl err \<Rightarrow> ((CatError, UpdateRosterFailed), st)
                   | Inr st' \<Rightarrow> ((CatSuccess, RosterUpdated), st')))"

subsection \<open>Sequencing calls that may raise\<close>

definition and_then :: "error + 'a \<Rightarrow> ('a \<Rightarrow> error + 'b) \<Rightarrow> error + 'b" where
  "and_then r k = (case r of Inl err \<Rightarrow> Inl err | Inr v \<Rightarrow> k v)"

subsection \<open>Dashboard\<close>

record chart_point =
  cp_date :: string
  cp_count :: int

record dashboard_view =
  dv_total_employees :: int
  dv_total_ambulances :: int
  dv_ready_ambulances :: int
  dv_today_shifts :: "shift list"
  dv_chart_data :: "chart_point list"
  dv_total_teams_today :: int
  dv_teams_morning :: int
  dv_teams_evening :: int
  dv_teams_full :: int
  dv_active_tasks :: int

text \<open>The ready status, an Arabic word, as UTF-8 bytes.\<close>

definition status_ready :: string where
  "status_ready = [CHR 0xD8, CHR 0xAC, CHR 0xD8, CHR 0xA7, CHR 0xD9, CHR 0x87, CHR 0xD8, CHR 0xB2]"

text \<open>\<^verbatim>\<open>sum(int(v) for v in vs)\<close>: the first value that is no integer raises.\<close>

fun sum_ints :: "string list \<Rightarrow> error + int" where
  "sum_ints [] = Inr 0"
| "sum_ints (v # vs) =
     and_then (py_int v) (\<lambda>n. and_then (sum_ints vs) (\<lambda>total. Inr (n + total)))"

text \<open>
  The loop over \<^verbatim>\<open>range(30)\<close>: point \<open>i\<close> is the day \<open>start_date + i\<close>, with the
  number of shift records carrying that date string.
\<close>

fun chart_loop :: "datetime \<Rightarrow> shift list \<Rightarrow> nat list \<Rightarrow> error + chart_point list" where
  "chart_loop start_date shifts [] = Inr []"
| "chart_loop start_date shifts (i # is) =
     and_then (add_days start_date (int i)) (\<lambda>current_date.
       let date_str = strftime_ymd current_date;
           day_shifts = int (length [s \<leftarrow> shifts. shift_date s = date_str])
       in and_then (chart_loop start_date shifts is) (\<lambda>rest.
            Inr (\<lparr>cp_date = strftime_ymd current_date, cp_count = day_shifts\<rparr> # rest)))"

definition chart_data :: "datetime \<Rightarrow> shift list \<Rightarrow> error + chart_point list" where
  "chart_data end_date shifts =
     and_then (add_days end_date (- 30)) (\<lambda>start_date. chart_loop start_date shifts [0..<30])"

definition dashboard_body :: "datetime \<Rightarrow> store \<Rightarrow> error + dashboard_view" where
  "dashboard_body now st =
     and_then (get_employees st) (\<lambda>employees.
     and_then (get_ambulances st) (\<lambda>ambulances.
     and_then (get_shifts st) (\<lambda>shifts.
     and_then (get_teams st) (\<lambda>teams.
     and_then (get_tasks st) (\<lambda>tasks.
       let today = strftime_ymd now;
           today_shifts = [s \<leftarrow> shifts. shift_date s = today];
           today_teams = [t \<leftarrow> teams. team_date t = today]
       in and_then (sum_ints (map team_morning_teams today_teams)) (\<lambda>teams_morning.
          and_then (sum_ints (map team_evening_teams today_teams)) (\<lambda>teams_evening.
          and_then (sum_ints (map team_full_teams today_teams)) (\<lambda>teams_full.
          and_then (chart_data now shifts) (\<lambda>chart.
            Inr \<lparr>dv_total_employees = int (length employees),
                 dv_total_ambulances = int (length ambulances),
                 dv_ready_ambulances =
                   int (length [a \<leftarrow> ambulances. amb_status a = status_ready]),
                 dv_today_shifts = today_shifts,
                 dv_chart_data = chart,
                 dv_total_teams_today = teams_morning + teams_evening + teams_full,
                 dv_teams_morning = teams_morning,
                 dv_teams_evening = teams_evening,
                 dv_teams_full = teams_full,
                 dv_active_tasks = int (length tasks)\<rparr>)))))))))"

definition dashboard_fallback :: dashboard_view where
  "dashboard_fallback =
     \<lparr>dv_total_employees = 0, dv_total_ambulances = 0, dv_ready_ambulances = 0,
      dv_today_shifts = [], dv_chart_data = [], dv_total_teams_today = 0,
      dv_teams_morning = 0, dv_teams_evening = 0, dv_teams_full = 0, dv_active_tasks = 0\<rparr>"

text \<open>\<open>now\<close> is the value of \<^verbatim>\<open>datetime.now()\<close>, read once for the request.\<close>

definition dashboard :: "datetime \<Rightarrow> store \<Rightarrow> flash option \<times> dashboard_view" where
  "dashboard now st =
     (case dashboard_body now st of
        Inl err \<Rightarrow> (Some (CatError, DashboardFailed), dashboard_fallback)
      | Inr v \<Rightarrow> (None, v))"

subsection \<open>Monthly roster\<close>

record roster_entry =
  re_name :: string
  re_shifts :: "string \<rightharpoonup> string"
  re_total_hours :: int

record roster_view =
  rv_roster_data :: "string \<rightharpoonup> roster_entry"
  rv_days :: "string list"
  rv_month :: string
  rv_employees :: "employee list"

text \<open>\<^verbatim>\<open>{'D': 12, 'N': 12, 'F': 24}.get(period, 0)\<close>\<close>

definition hours :: "string \<Rightarrow> int" where
  "hours period =
     (if period = ''D'' then 12 else if period = ''N'' then 12
      else if period = ''F'' then 24 else 0)"

text \<open>The first loop: one entry per employee code, every day mapped to the empty string.\<close>

definition blank_entry :: "string list \<Rightarrow> employee \<Rightarrow> roster_entry" where
  "blank_entry days emp =
     \<lparr>re_name = emp_name emp,
      re_shifts = fold (\<lambda>day m. m(day \<mapsto> [])) days Map.empty,
      re_total_hours = 0\<rparr>"

definition init_roster :: "string list \<Rightarrow> employee list \<Rightarrow> (string \<rightharpoonup> roster_entry)" where
  "init_roster days employees =
     fold (\<lambda>emp rd. rd(emp_code emp \<mapsto> blank_entry days emp)) employees Map.empty"

text \<open>The body of the second loop, for one shift of the month.\<close>

definition fill_shift :: "shift \<Rightarrow> (string \<rightharpoonup> roster_entry) \<Rightarrow> (string \<rightharpoonup> roster_entry)" where
  "fill_shift s rd =
     (let emp_code = shift_employee_code s; date = shift_date s; period = shift_period s
      in case rd emp_code of
           None \<Rightarrow> rd
         | Some e \<Rightarrow>
             (case re_shifts e date of
                None \<Rightarrow> rd
              | Some old \<Rightarrow>
                  rd(emp_code \<mapsto>
                       e\<lparr>re_shifts := (re_shifts e)(date \<mapsto> period),
                         re_total_hours := re_total_hours e + hours period\<rparr>)))"

definition roster_body :: "string \<Rightarrow> store \<Rightarrow> error + roster_view" where
  "roster_body month st =
     and_then (get_employees st) (\<lambda>employees.
     and_then (get_shifts st) (\<lambda>shifts.
       let month_shifts = [s \<leftarrow> shifts. startswith (shift_date s) month]
       in case split CHR ''-'' month of
            [year_s, month_s] \<Rightarrow>
              and_then (py_int year_s) (\<lambda>year.
              and_then (py_int month_s) (\<lambda>month_num.
              and_then (monthrange_days year month_num) (\<lambda>days_in_month.
                let days = map (\<lambda>day. fmt0d 4 year @ ''-'' @ fmt0d 2 month_num
                                         @ ''-'' @ fmt0d 2 day)
                               [1..days_in_month];
                    roster_data = fold fill_shift month_shifts (init_roster days employees)
                in Inr \<lparr>rv_roster_data = roster_data, rv_days = days, rv_month = month,
                        rv_employees = employees\<rparr>)))
          | _ \<Rightarrow> Inl ValueError))"

definition roster :: "form \<Rightarrow> datetime \<Rightarrow> store \<Rightarrow> flash option \<times> roster_view" where
  "roster args now st =
     (let month = form_get args ''month'' (strftime_ym now)
      in case roster_body month st of
           Inl err \<Rightarrow>
             (Some (CatError, RosterFailed),
              \<lparr>rv_roster_data = Map.empty, rv_days = [], rv_month = strftime_ym now,
               rv_employees = []\<rparr>)
         | Inr v \<Rightarrow> (None, v))"

section \<open>Invariant and example inputs\<close>

text \<open>
  Natural keys are unique when no two employees share a code and no two ambulances
  share a plate; a collection that cannot be read holds no records to compare.
\<close>

definition unique_keys :: "store \<Rightarrow> bool" where
  "unique_keys st =
     ((case get_employees st of Inl err \<Rightarrow> True | Inr es \<Rightarrow> distinct (map emp_code es))
    \<and> (case get_ambulances st of Inl err \<Rightarrow> True | Inr as \<Rightarrow> distinct (map amb_plate as)))"

definition ex_emp1 :: employee where
  "ex_emp1 = \<lparr>emp_code = ''E1'', emp_name = ''A'', emp_phone = ''0100'', emp_role = ''medic''\<rparr>"

definition ex_emp2 :: employee where
  "ex_emp2 = \<lparr>emp_code = ''E2'', emp_name = ''B'', emp_phone = ''0101'', emp_role = ''driver''\<rparr>"

definition ex_amb1 :: ambulance where
  "ex_amb1 = \<lparr>amb_plate = ''P1'', amb_model = ''van'', amb_status = status_ready,
               amb_last_service = [], amb_notes = []\<rparr>"

definition ex_shift1 :: shift where
  "ex_shift1 = \<lparr>shift_date = ''2024-03-01'', shift_period = ''D'', shift_employee_code = ''E1'',
                 shift_sector = ''north'', shift_chief_name = []\<rparr>"

definition ex_shift2 :: shift where
  "ex_shift2 = \<lparr>shift_date = ''2024-03-01'', shift_period = ''N'', shift_employee_code = ''E1'',
                 shift_sector = ''south'', shift_chief_name = []\<rparr>"

definition ex_shift3 :: shift where
  "ex_shift3 = \<lparr>shift_date = ''2024-03-02'', shift_period = ''F'', shift_employee_code = ''E2'',
                 shift_sector = ''north'', shift_chief_name = []\<rparr>"

definition ex_team :: team where
  "ex_team = \<lparr>team_date = ''2024-03-01'', team_morning_teams = ''2'', team_evening_teams = ''1'',
               team_full_teams = ''0'', team_notes = []\<rparr>"

definition ex_task :: task where
  "ex_task = \<lparr>task_employee_name = ''A'', task_task_description = ''fuel'',
               task_supervisor_name = ''B'', task_created_at = ''2024-03-01 08:00:00'',
               task_updated_at = None\<rparr>"

definition ex_store :: store where
  "ex_store = \<lparr>employees_file = Stored [ex_emp1, ex_emp2], ambulances_file = Stored [ex_amb1],
               shifts_file = Stored [ex_shift1, ex_shift2], teams_file = Stored [ex_team],
               tasks_file = Stored []\<rparr>"

text \<open>A store where the employee has one shift on the date.\<close>

definition ex_store_single :: store where
  "ex_store_single = \<lparr>employees_file = Stored [ex_emp1, ex_emp2], ambulances_file = Stored [ex_amb1],
               shifts_file = Stored [ex_shift3, ex_shift1], teams_file = Stored [],
               tasks_file = Stored []\<rparr>"

definition empty_store :: store where
  "empty_store = \<lparr>employees_file = Stored [], ambulances_file = Stored [],
               shifts_file = Stored [], teams_file = Stored [], tasks_file = Stored []\<rparr>"



definition ex_dup_form :: form where
  "ex_dup_form = [''code'' \<mapsto> '' E1 '', ''name'' \<mapsto> ''C'', ''phone'' \<mapsto> ''0102'',
                  ''role'' \<mapsto> ''medic'']"

definition ex_edit_form :: form where
  "ex_edit_form = [''name'' \<mapsto> ''C'', ''phone'' \<mapsto> ''0102'', ''role'' \<mapsto> ''medic'',
                   ''model'' \<mapsto> ''bus'', ''status'' \<mapsto> ''down'']"

definition ex_off_form :: form where
  "ex_off_form = [''month'' \<mapsto> ''2024-03'', ''employee_code'' \<mapsto> ''E1'',
                  ''date'' \<mapsto> ''2024-03-01'', ''period'' \<mapsto> ''O'']"

definition ex_ghost_form :: form where
  "ex_ghost_form = [''month'' \<mapsto> ''2024-03'', ''employee_code'' \<mapsto> ''X9'',
                  ''date'' \<mapsto> ''2024-03-01'', ''period'' \<mapsto> ''D'']"

definition ex_add_form :: form where
  "ex_add_form = [''code'' \<mapsto> ''E3'', ''name'' \<mapsto> ''C'', ''phone'' \<mapsto> ''0102'',
                  ''role'' \<mapsto> ''medic'', ''plate'' \<mapsto> ''P2'', ''model'' \<mapsto> ''bus'',
                  ''status'' \<mapsto> ''down'']"

text \<open>
  The number of days of a month as the calendar has it, and the cell of the roster
  grid as the specification words it: the period of the last shift record, in
  collection order, of that employee on that day, or the empty string.
\<close>

definition spec_days_in_month :: "int \<Rightarrow> int \<Rightarrow> int" where
  "spec_days_in_month y m =
     (if m = 2 then (if y mod 4 = 0 \<and> (y mod 100 \<noteq> 0 \<or> y mod 400 = 0) then 29 else 28)
      else if m = 4 \<or> m = 6 \<or> m = 9 \<or> m = 11 then 30 else 31)"

definition spec_grid_cell :: "shift list \<Rightarrow> string \<Rightarrow> string \<Rightarrow> string" where
  "spec_grid_cell shifts c day =
     (let matches = [s \<leftarrow> shifts. shift_employee_code s = c \<and> shift_date s = day]
      in if matches = [] then [] else shift_period (last matches))"

definition ex_now :: datetime where
  "ex_now = \<lparr>dt_year = 2024, dt_month = 3, dt_day = 31\<rparr>"

definition ex_roster_args :: form where
  "ex_roster_args = [''month'' \<mapsto> ''2024-03'']"

text \<open>A store for the dashboard of 2024-03-31: one shift the day before, one on the day.\<close>

definition ex_shift_yesterday :: shift where
  "ex_shift_yesterday = \<lparr>shift_date = ''2024-03-30'', shift_period = ''D'',
     shift_employee_code = ''E1'', shift_sector = ''north'', shift_chief_name = []\<rparr>"

definition ex_shift_today :: shift where
  "ex_shift_today = \<lparr>shift_date = ''2024-03-31'', shift_period = ''N'',
     shift_employee_code = ''E2'', shift_sector = ''north'', shift_chief_name = []\<rparr>"

definition ex_team_today :: team where
  "ex_team_today = \<lparr>team_date = ''2024-03-31'', team_morning_teams = ''2'',
     team_evening_teams = ''1'', team_full_teams = ''0'', team_notes = []\<rparr>"

definition ex_chart_store :: store where
  "ex_chart_store = \<lparr>employees_file = Stored [ex_emp1, ex_emp2], ambulances_file = Stored [ex_amb1],
     shifts_file = Stored [ex_shift_yesterday, ex_shift_today],
     teams_file = Stored [ex_team_today], tasks_file = Stored []\<rparr>"

section \<open>Properties of the record store\<close>

lemma load_json_Inr:
  "load_json f = Inr xs \<Longrightarrow>
     f = Stored xs \<or> (xs = [] \<and> (f = Missing \<or> (\<exists>bs. f = Garbled bs \<and> utf8_valid bs)))"
  by (cases f) (auto simp: load_json_def read_json_def split: if_splits)

lemma count_list_filter_keep:
  "P e \<Longrightarrow> count_list (filter P xs) e = count_list xs e"
  by (induction xs) auto

lemma strip_examples:
  "strip ''O'' = ''O''" "strip ''D'' = ''D''" "strip '' E1 '' = ''E1''" "strip [] = []"
  "strip ''C'' = ''C''" "strip ''0102'' = ''0102''" "strip ''medic'' = ''medic''"
  "strip ''bus'' = ''bus''" "strip ''down'' = ''down''" "strip ''E3'' = ''E3''"
  "strip ''P2'' = ''P2''"
  by (simp_all add: strip_def isspace_def)

lemma ex_store_loads:
  "get_employees ex_store = Inr [ex_emp1, ex_emp2]"
  "get_ambulances ex_store = Inr [ex_amb1]"
  "get_shifts ex_store = Inr [ex_shift1, ex_shift2]"
  "get_teams ex_store = Inr [ex_team]"
  "get_tasks ex_store = Inr []"
  by (simp_all add: ex_store_def get_employees_def get_ambulances_def get_shifts_def
        get_teams_def get_tasks_def load_json_def read_json_def)

lemma load_json_by_state:
  "(f = Missing \<or> (\<exists>bs. f = Garbled bs \<and> utf8_valid bs) \<longrightarrow> load_json f = Inr [])
 \<and> (\<forall>bs. f = Garbled bs \<and> \<not> utf8_valid bs \<longrightarrow> load_json f = Inl UnicodeDecodeError)
 \<and> (f = Unreadable \<longrightarrow> load_json f = Inl OSError)
 \<and> (\<forall>xs. f = Stored xs \<longrightarrow> load_json f = Inr xs)"
  by (cases f) (simp_all add: load_json_def read_json_def)






text \<open>
  C8. For the shift, team and task collections, an update or a delete keyed by an
  index outside \<open>[0, length)\<close> (negative, or at least the length) raises nothing and
  returns the store exactly as it was.
\<close>

theorem index_out_of_range_is_noop:
  "(get_shifts st = Inr shifts \<and> \<not> (0 \<le> i \<and> i < int (length shifts))
      \<longrightarrow> dm_update_shift i s st = Inr st \<and> dm_delete_shift i st = Inr st)
 \<and> (get_teams st = Inr teams \<and> \<not> (0 \<le> i \<and> i < int (length teams))
      \<longrightarrow> dm_update_team i t st = Inr st \<and> dm_delete_team i st = Inr st)
 \<and> (get_tasks st = Inr tasks \<and> \<not> (0 \<le> i \<and> i < int (length tasks))
      \<longrightarrow> dm_update_task i k st = Inr st \<and> dm_delete_task i st = Inr st)"
  by (simp add: dm_update_shift_def dm_delete_shift_def dm_update_team_def dm_delete_team_def
        dm_update_task_def dm_delete_task_def)

theorem index_out_of_range_is_noop_witness:
  "get_shifts ex_store = Inr [ex_shift1, ex_shift2]
 \<and> dm_update_shift 2 ex_shift3 ex_store = Inr ex_store \<and> dm_delete_shift 2 ex_store = Inr ex_store
 \<and> get_teams ex_store = Inr [ex_team]
 \<and> dm_update_team 2 ex_team ex_store = Inr ex_store \<and> dm_delete_team 2 ex_store = Inr ex_store
 \<and> get_tasks ex_store = Inr []
 \<and> dm_update_task 2 ex_task ex_store = Inr ex_store \<and> dm_delete_task 2 ex_store = Inr ex_store"
  using index_out_of_range_is_noop
          [of ex_store "[ex_shift1, ex_shift2]" 2 ex_shift3 "[ex_team]" ex_team "[]" ex_task]
  by (simp add: ex_store_loads)

text \<open>
  C10. Deleting the employee code \<open>c\<close> from the record store leaves exactly the records
  whose code differs from \<open>c\<close>: no record with code \<open>c\<close> remains (however many there
  were), every other record is kept as often as it occurred and in its original order,
  and when no record has code \<open>c\<close> the collection is the same as before. The other
  collections are untouched.
\<close>

theorem dm_delete_employee_removes_exactly_code:
  assumes "get_employees st = Inr emps"
  shows "\<exists>st'. dm_delete_employee c st = Inr st'
           \<and> get_employees st' = Inr [e \<leftarrow> emps. emp_code e \<noteq> c]
           \<and> (\<forall>e \<in> set [e \<leftarrow> emps. emp_code e \<noteq> c]. emp_code e \<noteq> c)
           \<and> subseq [e \<leftarrow> emps. emp_code e \<noteq> c] emps
           \<and> (\<forall>e. emp_code e \<noteq> c \<longrightarrow>
                  count_list [e \<leftarrow> emps. emp_code e \<noteq> c] e = count_list emps e)
           \<and> ((\<forall>e \<in> set emps. emp_code e \<noteq> c) \<longrightarrow> get_employees st' = Inr emps)
           \<and> ambulances_file st' = ambulances_file st \<and> shifts_file st' = shifts_file st
           \<and> teams_file st' = teams_file st \<and> tasks_file st' = tasks_file st"
  using assms
  by (auto simp: dm_delete_employee_def get_employees_def load_json_def read_json_def save_json_def
        count_list_filter_keep)

theorem dm_delete_employee_removes_exactly_code_witness:
  "get_employees ex_store = Inr [ex_emp1, ex_emp2]
 \<and> (\<exists>st'. dm_delete_employee ''E1'' ex_store = Inr st' \<and> get_employees st' = Inr [ex_emp2])"
proof -
  have h: "get_employees ex_store = Inr [ex_emp1, ex_emp2]"
    by (simp add: ex_store_loads)
  from dm_delete_employee_removes_exactly_code [OF h, of "''E1''"]
  obtain st' where "dm_delete_employee ''E1'' ex_store = Inr st'"
    and "get_employees st' = Inr [e \<leftarrow> [ex_emp1, ex_emp2]. emp_code e \<noteq> ''E1'']"
    by blast
  then show ?thesis
    using h by (auto simp: ex_emp1_def ex_emp2_def)
qed

section \<open>Properties of the employee and ambulance handlers\<close>

text \<open>
  C7. When the code of the employee to add (the submitted code, stripped) is the code
  of a record already in the employee collection, the add is rejected with an error
  message and the store, hence the collection's size and contents, is unchanged.
\<close>

theorem add_employee_duplicate_rejected:
  assumes "get_employees st = Inr emps"
      and "\<exists>e \<in> set emps. emp_code e = strip (form_get f ''code'' [])"
  shows "snd (add_employee f st) = st \<and> fst (fst (add_employee f st)) = CatError
         \<and> get_employees (snd (add_employee f st)) = Inr emps"
  using assms by (auto simp: add_employee_def Let_def list_ex_iff)

theorem add_employee_duplicate_rejected_witness:
  "get_employees ex_store = Inr [ex_emp1, ex_emp2]
 \<and> emp_code ex_emp1 = strip (form_get ex_dup_form ''code'' [])
 \<and> add_employee ex_dup_form ex_store = ((CatError, EmployeeCodeExists), ex_store)"
proof -
  have h: "get_employees ex_store = Inr [ex_emp1, ex_emp2]"
    by (simp add: ex_store_loads)
  have c: "emp_code ex_emp1 = strip (form_get ex_dup_form ''code'' [])"
    by (simp add: ex_emp1_def ex_dup_form_def form_get_def strip_examples)
  then have d: "\<exists>e \<in> set [ex_emp1, ex_emp2]. emp_code e = strip (form_get ex_dup_form ''code'' [])"
    by simp
  have m: "fst (add_employee ex_dup_form ex_store) = (CatError, EmployeeCodeExists)"
    by (simp add: add_employee_def h ex_dup_form_def form_get_def strip_examples ex_emp1_def)
  from add_employee_duplicate_rejected [OF h d] have "snd (add_employee ex_dup_form ex_store) = ex_store"
    by simp
  with m h c show ?thesis
    by (simp add: prod_eq_iff)
qed

lemma replace_first_same_key:
  "k y = c \<Longrightarrow> map k (replace_first (\<lambda>x. k x = c) y xs) = map k xs"
  by (induction xs) auto

lemma add_employee_unique: "unique_keys st \<Longrightarrow> unique_keys (snd (add_employee f st))"
  by (auto simp: unique_keys_def add_employee_def Let_def dm_add_employee_def get_employees_def
        get_ambulances_def save_json_def load_json_def read_json_def list_ex_iff
        split: sum.splits json_file.splits)

lemma edit_employee_unique: "unique_keys st \<Longrightarrow> unique_keys (snd (edit_employee c f st))"
  by (auto simp: unique_keys_def edit_employee_def Let_def dm_update_employee_def get_employees_def
        get_ambulances_def save_json_def load_json_def read_json_def replace_first_same_key [where k = emp_code]
        split: sum.splits json_file.splits)

lemma delete_employee_unique: "unique_keys st \<Longrightarrow> unique_keys (snd (delete_employee c st))"
  by (auto simp: unique_keys_def delete_employee_def dm_delete_employee_def get_employees_def
        get_ambulances_def save_json_def load_json_def read_json_def distinct_map_filter
        split: sum.splits json_file.splits)

lemma add_ambulance_unique: "unique_keys st \<Longrightarrow> unique_keys (snd (add_ambulance f st))"
  by (auto simp: unique_keys_def add_ambulance_def Let_def dm_add_ambulance_def get_employees_def
        get_ambulances_def save_json_def load_json_def read_json_def list_ex_iff
        split: sum.splits json_file.splits)

lemma edit_ambulance_unique: "unique_keys st \<Longrightarrow> unique_keys (snd (edit_ambulance p f st))"
  by (auto simp: unique_keys_def edit_ambulance_def Let_def dm_update_ambulance_def get_employees_def
        get_ambulances_def save_json_def load_json_def read_json_def replace_first_same_key [where k = amb_plate]
        split: sum.splits json_file.splits)

lemma delete_ambulance_unique: "unique_keys st \<Longrightarrow> unique_keys (snd (delete_ambulance p st))"
  by (auto simp: unique_keys_def delete_ambulance_def dm_delete_ambulance_def get_employees_def
        get_ambulances_def save_json_def load_json_def read_json_def distinct_map_filter
        split: sum.splits json_file.splits)

lemma empty_store_unique: "unique_keys empty_store"
  by (simp add: unique_keys_def empty_store_def get_employees_def get_ambulances_def load_json_def read_json_def)

text \<open>
  C4. Uniqueness of employee codes and of ambulance plates is preserved by each of
  the six write handlers on the two collections (add, edit and delete of an employee
  and of an ambulance): from a store with unique codes and plates, whatever the
  submitted form and key, the store the handler leaves has unique codes and plates.
\<close>

theorem natural_keys_stay_unique:
  assumes "unique_keys st"
  shows "unique_keys (snd (add_employee f st)) \<and> unique_keys (snd (edit_employee c f st))
       \<and> unique_keys (snd (delete_employee c st)) \<and> unique_keys (snd (add_ambulance f st))
       \<and> unique_keys (snd (edit_ambulance p f st)) \<and> unique_keys (snd (delete_ambulance p st))"
  using assms
  by (simp add: add_employee_unique edit_employee_unique delete_employee_unique
        add_ambulance_unique edit_ambulance_unique delete_ambulance_unique)

theorem natural_keys_stay_unique_witness:
  "unique_keys ex_store
 \<and> get_employees (snd (add_employee ex_add_form ex_store))
     = Inr [ex_emp1, ex_emp2,
            \<lparr>emp_code = ''E3'', emp_name = ''C'', emp_phone = ''0102'', emp_role = ''medic''\<rparr>]
 \<and> unique_keys (snd (add_employee ex_add_form ex_store))
 \<and> unique_keys (snd (edit_employee ''E1'' ex_add_form ex_store))
 \<and> unique_keys (snd (delete_employee ''E1'' ex_store))
 \<and> unique_keys (snd (add_ambulance ex_add_form ex_store))
 \<and> unique_keys (snd (edit_ambulance ''P1'' ex_add_form ex_store))
 \<and> unique_keys (snd (delete_ambulance ''P1'' ex_store))"
proof -
  have u: "unique_keys ex_store"
    by (simp add: unique_keys_def ex_store_loads ex_emp1_def ex_emp2_def)
  have a: "get_employees (snd (add_employee ex_add_form ex_store))
     = Inr [ex_emp1, ex_emp2,
            \<lparr>emp_code = ''E3'', emp_name = ''C'', emp_phone = ''0102'', emp_role = ''medic''\<rparr>]"
    by (simp add: add_employee_def Let_def ex_store_loads dm_add_employee_def save_json_def
          ex_add_form_def form_get_def strip_examples ex_emp1_def ex_emp2_def
          get_employees_def [of "_\<lparr>employees_file := _\<rparr>"] load_json_def read_json_def)
  from natural_keys_stay_unique [OF u, of ex_add_form "''E1''" "''P1''"] u a show ?thesis
    by simp
qed

section \<open>Properties of the shift handlers and the roster update\<close>

lemma add_shift_unknown_employee:
  assumes "get_employees st = Inr emps"
      and "\<forall>e \<in> set emps. emp_code e \<noteq> strip (form_get f ''employee_code'' [])"
  shows "snd (add_shift f st) = st \<and> fst (fst (add_shift f st)) = CatError"
  using assms by (auto simp: add_shift_def Let_def list_ex_iff)

lemma edit_shift_unknown_employee:
  assumes "get_employees st = Inr emps"
      and "\<forall>e \<in> set emps. emp_code e \<noteq> strip (form_get f ''employee_code'' [])"
  shows "snd (edit_shift i f st) = st \<and> fst (fst (edit_shift i f st)) = CatError"
  using assms by (auto simp: edit_shift_def Let_def list_ex_iff)

text \<open>
  C5. The roster update on a store with no employee at all, for the employee code
  \<open>X9\<close>: no employee has that code, yet the handler reports success and the shift
  collection now holds a record for \<open>X9\<close>. (\<open>add_shift\<close> and \<open>edit_shift\<close> reject
  the same code, by the two lemmas above.)
\<close>

theorem update_roster_stores_unknown_employee:
  "get_employees empty_store = Inr []
 \<and> get_shifts empty_store = Inr []
 \<and> update_roster ex_ghost_form empty_store =
     ((CatSuccess, RosterUpdated),
      empty_store\<lparr>shifts_file :=
        Stored [\<lparr>shift_date = ''2024-03-01'', shift_period = ''D'', shift_employee_code = ''X9'',
                 shift_sector = default_sector, shift_chief_name = []\<rparr>]\<rparr>)"
  by (simp add: update_roster_def ex_ghost_form_def empty_store_def form_get_def strip_examples
        get_shifts_def get_employees_def load_json_def read_json_def dm_add_shift_def save_json_def)

lemma first_index_None_iff: "first_index P xs = None \<longleftrightarrow> (\<forall>x \<in> set xs. \<not> P x)"
  by (induction xs) auto

lemma first_index_SomeD:
  "first_index P xs = Some i \<Longrightarrow> i < length xs \<and> P (xs ! i) \<and> (\<forall>j < i. \<not> P (xs ! j))"
proof (induction xs arbitrary: i)
  case Nil
  then show ?case by simp
next
  case (Cons x xs)
  show ?case
  proof (cases "P x")
    case True
    with Cons.prems show ?thesis by simp
  next
    case False
    with Cons.prems obtain k where k: "first_index P xs = Some k" "i = Suc k"
      by auto
    from Cons.IH [OF k(1)] False k(2) show ?thesis
      by (auto simp: nth_Cons split: nat.splits)
  qed
qed

lemma filter_pop_first:
  "first_index P xs = Some i \<Longrightarrow> filter P xs = xs ! i # filter P (pop i xs)"
proof (induction xs arbitrary: i)
  case Nil
  then show ?case by simp
next
  case (Cons x xs)
  show ?case
  proof (cases "P x")
    case True
    with Cons.prems show ?thesis by (simp add: pop_def)
  next
    case False
    with Cons.prems obtain k where k: "first_index P xs = Some k" "i = Suc k"
      by auto
    from Cons.IH [OF k(1)] False k(2) show ?thesis
      by (simp add: pop_def)
  qed
qed

lemma length_pop: "i < length xs \<Longrightarrow> length (pop i xs) = length xs - 1"
  by (auto simp: pop_def)

text \<open>With the three fields filled in and the period off or empty, the update deletes the first match, if any.\<close>

lemma update_roster_off:
  assumes "form_get f ''month'' [] \<noteq> []"
      and "form_get f ''employee_code'' [] = c" and "c \<noteq> []"
      and "form_get f ''date'' [] = d" and "d \<noteq> []"
      and "strip (form_get f ''period'' []) = [] \<or> strip (form_get f ''period'' []) = ''O''"
      and "get_shifts st = Inr shifts"
  shows "snd (update_roster f st) =
           (case first_index (\<lambda>s. shift_employee_code s = c \<and> shift_date s = d) shifts of
              None \<Rightarrow> st
            | Some i \<Rightarrow> st\<lparr>shifts_file := Stored (pop i shifts)\<rparr>)"
proof (cases "first_index (\<lambda>s. shift_employee_code s = c \<and> shift_date s = d) shifts")
  case None
  with assms show ?thesis
    by (auto simp: update_roster_def Let_def)
next
  case (Some i)
  from first_index_SomeD [OF Some] have "i < length shifts" by simp
  with Some assms show ?thesis
    by (auto simp: update_roster_def Let_def dm_delete_shift_def save_json_def)
qed

text \<open>
  C6, as stated, fails: with two shift records for the employee on the date, the
  first off-update removes one of them and the second off-update removes the other, so
  the second call changes the collection.
\<close>

theorem roster_off_twice_counterexample:
  "get_shifts ex_store = Inr [ex_shift1, ex_shift2]
 \<and> shift_employee_code ex_shift1 = ''E1'' \<and> shift_date ex_shift1 = ''2024-03-01''
 \<and> strip (form_get ex_off_form ''period'' []) = ''O''
 \<and> get_shifts (snd (update_roster ex_off_form ex_store)) = Inr [ex_shift2]
 \<and> get_shifts (snd (update_roster ex_off_form (snd (update_roster ex_off_form ex_store)))) = Inr []
 \<and> snd (update_roster ex_off_form (snd (update_roster ex_off_form ex_store)))
     \<noteq> snd (update_roster ex_off_form ex_store)"
  by (simp add: update_roster_def ex_off_form_def ex_store_def form_get_def strip_examples
        get_shifts_def load_json_def read_json_def dm_delete_shift_def save_json_def pop_def
        ex_shift1_def ex_shift2_def)

text \<open>
  C6, amended. Let the month, employee code and date fields be filled in, the period be
  the off marker \<open>O\<close> or empty, and the shift collection hold at least one record for
  that employee and date. Then the roster update removes exactly one record, the first
  match in collection order, and keeps every other record in place. A second identical
  update leaves the store unchanged if and only if the employee had exactly one record
  on that date; with duplicates each further call removes one more.
\<close>

theorem roster_off_removes_first_match:
  assumes month: "form_get f ''month'' [] \<noteq> []"
      and code: "form_get f ''employee_code'' [] = c" "c \<noteq> []"
      and date: "form_get f ''date'' [] = d" "d \<noteq> []"
      and off: "strip (form_get f ''period'' []) = [] \<or> strip (form_get f ''period'' []) = ''O''"
      and shifts: "get_shifts st = Inr shifts"
      and existing: "\<exists>s \<in> set shifts. shift_employee_code s = c \<and> shift_date s = d"
  shows "\<exists>i < length shifts.
           shift_employee_code (shifts ! i) = c \<and> shift_date (shifts ! i) = d
         \<and> (\<forall>j < i. \<not> (shift_employee_code (shifts ! j) = c \<and> shift_date (shifts ! j) = d))
         \<and> get_shifts (snd (update_roster f st)) = Inr (take i shifts @ drop (Suc i) shifts)
         \<and> length (take i shifts @ drop (Suc i) shifts) + 1 = length shifts
         \<and> (snd (update_roster f (snd (update_roster f st))) = snd (update_roster f st)
              \<longleftrightarrow> length [s \<leftarrow> shifts. shift_employee_code s = c \<and> shift_date s = d] = 1)"
proof -
  let ?P = "\<lambda>s. shift_employee_code s = c \<and> shift_date s = d"
  from existing have "first_index ?P shifts \<noteq> None"
    by (simp add: first_index_None_iff)
  then obtain i where i: "first_index ?P shifts = Some i"
    by auto
  note fi = first_index_SomeD [OF i]
  let ?st1 = "st\<lparr>shifts_file := Stored (pop i shifts)\<rparr>"
  have st1: "snd (update_roster f st) = ?st1"
    using update_roster_off [OF month code date off shifts] i by simp
  have get1: "get_shifts ?st1 = Inr (pop i shifts)"
    by (simp add: get_shifts_def load_json_def read_json_def)
  have st2: "snd (update_roster f ?st1) =
               (case first_index ?P (pop i shifts) of
                  None \<Rightarrow> ?st1
                | Some j \<Rightarrow> ?st1\<lparr>shifts_file := Stored (pop j (pop i shifts))\<rparr>)"
    using update_roster_off [OF month code date off get1] by simp
  have count: "length (filter ?P shifts) = Suc (length (filter ?P (pop i shifts)))"
    using filter_pop_first [OF i] by simp
  have again: "snd (update_roster f ?st1) = ?st1 \<longleftrightarrow> length (filter ?P shifts) = 1"
  proof (cases "first_index ?P (pop i shifts)")
    case None
    then have "filter ?P (pop i shifts) = []"
      by (simp add: first_index_None_iff filter_empty_conv)
    with None st2 count show ?thesis by simp
  next
    case (Some j)
    from first_index_SomeD [OF Some] have j: "j < length (pop i shifts)" "?P (pop i shifts ! j)"
      by simp_all
    then have "filter ?P (pop i shifts) \<noteq> []"
      by (metis (mono_tags, lifting) filter_empty_conv nth_mem)
    moreover have "pop j (pop i shifts) \<noteq> pop i shifts"
    proof
      assume "pop j (pop i shifts) = pop i shifts"
      then have "length (pop j (pop i shifts)) = length (pop i shifts)" by simp
      with j(1) show False by (simp add: length_pop)
    qed
    then have "?st1\<lparr>shifts_file := Stored (pop j (pop i shifts))\<rparr> \<noteq> ?st1"
      by (metis json_file.inject store.select_convs(3) store.surjective store.update_convs(3))
    ultimately show ?thesis using Some st2 count by simp
  qed
  from fi have "length (take i shifts @ drop (Suc i) shifts) + 1 = length shifts"
    by auto
  with fi st1 get1 again show ?thesis
    by (auto simp: pop_def)
qed

theorem roster_off_removes_first_match_witness:
  "get_shifts ex_store_single = Inr [ex_shift3, ex_shift1]
 \<and> get_shifts (snd (update_roster ex_off_form ex_store_single)) = Inr [ex_shift3]
 \<and> snd (update_roster ex_off_form (snd (update_roster ex_off_form ex_store_single)))
     = snd (update_roster ex_off_form ex_store_single)"
proof -
  let ?shifts = "[ex_shift3, ex_shift1]"
  have g: "get_shifts ex_store_single = Inr ?shifts"
    by (simp add: ex_store_single_def get_shifts_def load_json_def read_json_def)
  have e: "\<exists>s \<in> set ?shifts. shift_employee_code s = ''E1'' \<and> shift_date s = ''2024-03-01''"
    by (simp add: ex_shift1_def)
  have one: "length [s \<leftarrow> ?shifts. shift_employee_code s = ''E1'' \<and> shift_date s = ''2024-03-01''] = 1"
    by (simp add: ex_shift1_def ex_shift3_def)
  from roster_off_removes_first_match [of ex_off_form "''E1''" "''2024-03-01''" ex_store_single ?shifts, OF _ _ _ _ _ _ g e]
  obtain i where i: "i < length ?shifts" "shift_employee_code (?shifts ! i) = ''E1''"
      and r: "get_shifts (snd (update_roster ex_off_form ex_store_single))
                = Inr (take i ?shifts @ drop (Suc i) ?shifts)"
      and s: "snd (update_roster ex_off_form (snd (update_roster ex_off_form ex_store_single)))
                = snd (update_roster ex_off_form ex_store_single)
              \<longleftrightarrow> length [s \<leftarrow> ?shifts. shift_employee_code s = ''E1'' \<and> shift_date s = ''2024-03-01''] = 1"
    by (auto simp: ex_off_form_def form_get_def strip_examples)
  from i have "i = 1"
    by (cases i) (simp_all add: ex_shift3_def)
  with r s one g show ?thesis
    by simp
qed

section \<open>Properties of the monthly roster\<close>

lemma startswith_append: "startswith (p @ s) p"
  by (induction p) auto

lemma split_no_sep: "sep \<notin> set s \<Longrightarrow> split sep s = [s]"
  by (induction s) auto

lemma split_once:
  "sep \<notin> set a \<Longrightarrow> sep \<notin> set b \<Longrightarrow> split sep (a @ sep # b) = [a, b]"
  by (induction a) (auto simp: split_no_sep)

lemma digit_char_props:
  assumes "d < 10"
  shows "is_digit (digit_char d) \<and> digit_val (digit_char d) = d
     \<and> \<not> isspace (digit_char d) \<and> digit_char d \<noteq> CHR ''-'' \<and> digit_char d \<noteq> CHR ''+''"
proof -
  have v: "of_char (digit_char d) = 48 + d"
    using assms by (simp add: digit_char_def)
  have "of_char (digit_char d) \<noteq> (of_char CHR ''-'' :: nat)"
       "of_char (digit_char d) \<noteq> (of_char CHR ''+'' :: nat)"
    unfolding v by simp_all
  then have "digit_char d \<noteq> CHR ''-''" "digit_char d \<noteq> CHR ''+''"
    by auto
  with v assms show ?thesis
    by (simp add: is_digit_def digit_val_def isspace_def)
qed

lemma digits_all_digit: "\<forall>c \<in> set (digits n). is_digit c \<and> \<not> isspace c \<and> c \<noteq> CHR ''-'' \<and> c \<noteq> CHR ''+''"
proof (induction n rule: digits.induct)
  case (1 n)
  show ?case
  proof (cases "n < 10")
    case True
    then show ?thesis
      using digit_char_props [of n] by (simp add: digits.simps [of n])
  next
    case False
    with "1.IH" digit_char_props [of "n mod 10"] show ?thesis
      by (simp add: digits.simps [of n])
  qed
qed

lemma digits_nonempty: "digits n \<noteq> []"
  by (simp add: digits.simps [of n])

lemma int_digits_plain:
  "\<forall>c \<in> set cs. is_digit c \<Longrightarrow>
     int_digits acc cs = Some (foldl (\<lambda>a c. 10 * a + digit_val c) acc cs)"
  by (induction cs arbitrary: acc) auto

lemma foldl_digits:
  "foldl (\<lambda>a c. 10 * a + digit_val c) acc (digits n) = acc * 10 ^ length (digits n) + n"
proof (induction n arbitrary: acc rule: digits.induct)
  case (1 n)
  show ?case
  proof (cases "n < 10")
    case True
    then show ?thesis
      using digit_char_props [of n] by (simp add: digits.simps [of n])
  next
    case False
    with "1.IH" [of acc] digit_char_props [of "n mod 10"] show ?thesis
      by (simp add: digits.simps [of n] algebra_simps)
  qed
qed

lemma foldl_zeros:
  "foldl (\<lambda>a c. 10 * a + digit_val c) 0 (replicate k CHR ''0'') = 0"
  by (induction k) (simp_all add: digit_val_def)

lemma is_digit_zero: "is_digit CHR ''0''" "\<not> isspace CHR ''0''"
  by (simp_all add: is_digit_def isspace_def)

lemma strip_id:
  assumes "\<forall>c \<in> set s. \<not> isspace c"
  shows "strip s = s"
proof -
  from assms have "dropWhile isspace s = s"
    by (cases s) auto
  moreover have "\<forall>c \<in> set (rev s). \<not> isspace c"
    using assms by simp
  then have "dropWhile isspace (rev s) = rev s"
    by (cases "rev s") auto
  ultimately show ?thesis by (simp add: strip_def)
qed

lemma fmt0d_nonneg:
  "0 \<le> n \<Longrightarrow> fmt0d w n = replicate (w - length (digits (nat n))) CHR ''0'' @ digits (nat n)"
  by (simp add: fmt0d_def)

lemma fmt0d_chars:
  assumes "0 \<le> n"
  shows "\<forall>c \<in> set (fmt0d w n). is_digit c \<and> \<not> isspace c \<and> c \<noteq> CHR ''-'' \<and> c \<noteq> CHR ''+''"
proof
  fix c
  assume "c \<in> set (fmt0d w n)"
  then have "c = CHR ''0'' \<or> c \<in> set (digits (nat n))"
    unfolding fmt0d_nonneg [OF assms] by auto
  then show "is_digit c \<and> \<not> isspace c \<and> c \<noteq> CHR ''-'' \<and> c \<noteq> CHR ''+''"
  proof
    assume "c = CHR ''0''"
    then show ?thesis by (simp add: is_digit_zero)
  next
    assume "c \<in> set (digits (nat n))"
    with digits_all_digit [of "nat n"] show ?thesis by blast
  qed
qed

lemma fmt0d_nonempty: "fmt0d w n \<noteq> []"
  unfolding fmt0d_def using digits_nonempty [of "nat n"] digits_nonempty [of "nat (- n)"]
  by (cases "n < 0") simp_all

lemma py_int_fmt0d:
  assumes "0 \<le> n"
  shows "py_int (fmt0d w n) = Inr n"
proof -
  let ?s = "fmt0d w n"
  from fmt0d_chars [OF assms] have ch: "\<forall>c \<in> set ?s. is_digit c \<and> \<not> isspace c \<and> c \<noteq> CHR ''-'' \<and> c \<noteq> CHR ''+''" .
  then have st: "strip ?s = ?s" by (simp add: strip_id)
  obtain c cs where s: "?s = c # cs"
    using fmt0d_nonempty [of w n] by (cases ?s) auto
  have "int_digits 0 ?s = Some (foldl (\<lambda>a c. 10 * a + digit_val c) 0 ?s)"
    using ch by (simp add: int_digits_plain)
  also have "foldl (\<lambda>a c. 10 * a + digit_val c) 0 ?s = nat n"
    unfolding fmt0d_nonneg [OF assms] using assms by (simp add: foldl_zeros foldl_digits)
  finally have "int_digits 0 ?s = Some (nat n)" .
  moreover from ch s have "is_digit c" "c \<noteq> CHR ''-''" "c \<noteq> CHR ''+''" by auto
  ultimately have "int_unsigned ?s = Some (nat n)"
    using s by (simp add: int_unsigned_def)
  with st s \<open>c \<noteq> CHR ''-''\<close> \<open>c \<noteq> CHR ''+''\<close> assms show ?thesis
    by (simp add: py_int_def Let_def)
qed

lemma fold_blank_days:
  "fold (\<lambda>day m. m(day \<mapsto> v)) days m0 = (\<lambda>k. if k \<in> set days then Some v else m0 k)"
  by (induction days arbitrary: m0) (auto simp: fun_eq_iff)

lemma blank_entry_shifts:
  "re_shifts (blank_entry days emp) = (\<lambda>k. if k \<in> set days then Some [] else None)"
  by (simp add: blank_entry_def fold_blank_days)

lemma init_roster_snoc:
  "init_roster days (emps @ [e]) = (init_roster days emps)(emp_code e \<mapsto> blank_entry days e)"
  by (simp add: init_roster_def)

lemma init_roster_entry:
  "init_roster days emps c = Some entry \<Longrightarrow> \<exists>e \<in> set emps. entry = blank_entry days e"
  by (induction emps arbitrary: entry rule: rev_induct)
     (auto simp: init_roster_snoc init_roster_def split: if_splits)

lemma init_roster_dom: "e \<in> set emps \<Longrightarrow> \<exists>entry. init_roster days emps (emp_code e) = Some entry"
  by (induction emps rule: rev_induct) (auto simp: init_roster_snoc)

text \<open>What the second loop does to the entry of one employee code.\<close>

lemma fill_entry:
  assumes "rd c = Some e"
  shows "\<exists>e'. fold fill_shift ss rd c = Some e'
           \<and> re_name e' = re_name e
           \<and> dom (re_shifts e') = dom (re_shifts e)
           \<and> (\<forall>d \<in> dom (re_shifts e). re_shifts e' d =
                 (if [s \<leftarrow> ss. shift_employee_code s = c \<and> shift_date s = d] = []
                  then re_shifts e d
                  else Some (shift_period
                         (last [s \<leftarrow> ss. shift_employee_code s = c \<and> shift_date s = d]))))
           \<and> re_total_hours e' = re_total_hours e
               + sum_list (map (\<lambda>s. hours (shift_period s))
                   [s \<leftarrow> ss. shift_employee_code s = c \<and> shift_date s \<in> dom (re_shifts e)])"
proof (induction ss rule: rev_induct)
  case Nil
  with assms show ?case by simp
next
  case (snoc s ss)
  then obtain e1 where e1: "fold fill_shift ss rd c = Some e1"
      and n1: "re_name e1 = re_name e"
      and d1: "dom (re_shifts e1) = dom (re_shifts e)"
      and c1: "\<forall>d \<in> dom (re_shifts e). re_shifts e1 d =
                 (if [s \<leftarrow> ss. shift_employee_code s = c \<and> shift_date s = d] = []
                  then re_shifts e d
                  else Some (shift_period
                         (last [s \<leftarrow> ss. shift_employee_code s = c \<and> shift_date s = d])))"
      and h1: "re_total_hours e1 = re_total_hours e
               + sum_list (map (\<lambda>s. hours (shift_period s))
                   [s \<leftarrow> ss. shift_employee_code s = c \<and> shift_date s \<in> dom (re_shifts e)])"
    by blast
  let ?rd1 = "fold fill_shift ss rd"
  have step: "fold fill_shift (ss @ [s]) rd = fill_shift s ?rd1"
    by simp
  show ?case
  proof (cases "shift_employee_code s = c \<and> shift_date s \<in> dom (re_shifts e)")
    case True
    then obtain old where old: "re_shifts e1 (shift_date s) = Some old"
      using d1 by auto
    let ?e' = "e1\<lparr>re_shifts := (re_shifts e1)(shift_date s \<mapsto> shift_period s),
                   re_total_hours := re_total_hours e1 + hours (shift_period s)\<rparr>"
    have "fill_shift s ?rd1 c = Some ?e'"
      using True e1 old by (simp add: fill_shift_def Let_def)
    moreover have "dom (re_shifts ?e') = dom (re_shifts e)"
      using d1 True by auto
    moreover have "\<forall>d \<in> dom (re_shifts e). re_shifts ?e' d =
                 (if [s \<leftarrow> ss @ [s]. shift_employee_code s = c \<and> shift_date s = d] = []
                  then re_shifts e d
                  else Some (shift_period
                         (last [s \<leftarrow> ss @ [s]. shift_employee_code s = c \<and> shift_date s = d])))"
      using c1 True by auto
    moreover have "re_total_hours ?e' = re_total_hours e
               + sum_list (map (\<lambda>s. hours (shift_period s))
                   [s \<leftarrow> ss @ [s]. shift_employee_code s = c \<and> shift_date s \<in> dom (re_shifts e)])"
      using h1 True by simp
    ultimately show ?thesis
      unfolding step using n1 by simp
  next
    case False
    have "fill_shift s ?rd1 c = Some e1"
    proof (cases "shift_employee_code s = c")
      case True
      with False d1 have "re_shifts e1 (shift_date s) = None"
        by auto
      with True e1 show ?thesis by (simp add: fill_shift_def Let_def)
    next
      case False
      with e1 show ?thesis
        by (simp add: fill_shift_def Let_def split: option.splits)
    qed
    moreover have "\<forall>d \<in> dom (re_shifts e).
        [s \<leftarrow> ss @ [s]. shift_employee_code s = c \<and> shift_date s = d]
          = [s \<leftarrow> ss. shift_employee_code s = c \<and> shift_date s = d]"
      using False by auto
    moreover have "[s \<leftarrow> ss @ [s]. shift_employee_code s = c \<and> shift_date s \<in> dom (re_shifts e)]
          = [s \<leftarrow> ss. shift_employee_code s = c \<and> shift_date s \<in> dom (re_shifts e)]"
      using False by auto
    ultimately show ?thesis
      unfolding step using n1 d1 c1 h1 by simp
  qed
qed

lemma sum_hours:
  "sum_list (map (\<lambda>s. hours (shift_period s)) xs) =
     12 * int (length [s \<leftarrow> xs. shift_period s = ''D''])
   + 12 * int (length [s \<leftarrow> xs. shift_period s = ''N''])
   + 24 * int (length [s \<leftarrow> xs. shift_period s = ''F''])"
  by (induction xs) (auto simp: hours_def)

lemma monthrange_days_valid:
  assumes "1 \<le> m" "m \<le> 12"
  shows "monthrange_days y m = Inr (spec_days_in_month y m)"
proof -
  from assms have "m = 1 \<or> m = 2 \<or> m = 3 \<or> m = 4 \<or> m = 5 \<or> m = 6 \<or> m = 7 \<or> m = 8
      \<or> m = 9 \<or> m = 10 \<or> m = 11 \<or> m = 12"
    by arith
  then show ?thesis
    by (elim disjE) (simp_all add: monthrange_days_def mdays_def spec_days_in_month_def isleap_def)
qed

lemma split_month:
  assumes "0 \<le> y" "0 \<le> m"
  shows "split CHR ''-'' (fmt0d 4 y @ ''-'' @ fmt0d 2 m) = [fmt0d 4 y, fmt0d 2 m]"
proof -
  have "CHR ''-'' \<notin> set (fmt0d 4 y)" "CHR ''-'' \<notin> set (fmt0d 2 m)"
    using fmt0d_chars [OF assms(1), of 4] fmt0d_chars [OF assms(2), of 2] by auto
  then show ?thesis
    using split_once [of "CHR ''-''" "fmt0d 4 y" "fmt0d 2 m"] by simp
qed

lemma roster_body_valid:
  assumes "1 \<le> y" "1 \<le> m" "m \<le> 12"
      and "month = fmt0d 4 y @ ''-'' @ fmt0d 2 m"
      and "get_employees st = Inr employees" "get_shifts st = Inr shifts"
  shows "roster_body month st =
           Inr \<lparr>rv_roster_data =
                  fold fill_shift [s \<leftarrow> shifts. startswith (shift_date s) month]
                    (init_roster (map (\<lambda>d. month @ ''-'' @ fmt0d 2 d) [1..spec_days_in_month y m])
                       employees),
                rv_days = map (\<lambda>d. month @ ''-'' @ fmt0d 2 d) [1..spec_days_in_month y m],
                rv_month = month, rv_employees = employees\<rparr>"
proof -
  have sp: "split CHR ''-'' (fmt0d 4 y @ CHR ''-'' # fmt0d 2 m) = [fmt0d 4 y, fmt0d 2 m]"
    using assms(1,2) split_month [of y m] by simp
  have py: "py_int (fmt0d 4 y) = Inr y" "py_int (fmt0d 2 m) = Inr m"
    using assms by (simp_all add: py_int_fmt0d)
  show ?thesis
    unfolding roster_body_def
    by (simp add: and_then_def assms(5,6) sp py monthrange_days_valid [OF assms(2,3)] Let_def
          assms(4))
qed

lemma days_start_with_month:
  "\<forall>day \<in> set (map (\<lambda>d. month @ ''-'' @ fmt0d 2 d) ds). startswith day month"
  by (simp add: startswith_append)

lemma month_filter_day:
  assumes "startswith d month"
  shows "[s \<leftarrow> [s \<leftarrow> shifts. startswith (shift_date s) month].
            shift_employee_code s = c \<and> shift_date s = d]
         = [s \<leftarrow> shifts. shift_employee_code s = c \<and> shift_date s = d]"
  using assms by (induction shifts) auto

lemma month_filter_days:
  assumes "\<forall>d \<in> D. startswith d month"
  shows "[s \<leftarrow> [s \<leftarrow> shifts. startswith (shift_date s) month].
            shift_employee_code s = c \<and> shift_date s \<in> D]
         = [s \<leftarrow> shifts. shift_employee_code s = c \<and> shift_date s \<in> D]"
  using assms by (induction shifts) auto

text \<open>The entry the roster holds for an employee of the collection.\<close>

lemma roster_entry_of_employee:
  assumes "\<forall>d \<in> set days. startswith d month" and "e \<in> set employees"
  shows "\<exists>entry. fold fill_shift [s \<leftarrow> shifts. startswith (shift_date s) month]
                   (init_roster days employees) (emp_code e) = Some entry
           \<and> dom (re_shifts entry) = set days
           \<and> (\<forall>day \<in> set days. re_shifts entry day = Some (spec_grid_cell shifts (emp_code e) day))
           \<and> re_total_hours entry =
               sum_list (map (\<lambda>s. hours (shift_period s))
                 [s \<leftarrow> shifts. shift_employee_code s = emp_code e \<and> shift_date s \<in> set days])"
proof -
  let ?c = "emp_code e"
  let ?ms = "[s \<leftarrow> shifts. startswith (shift_date s) month]"
  from init_roster_dom [OF assms(2)] obtain e0
    where e0: "init_roster days employees ?c = Some e0"
    by blast
  from init_roster_entry [OF e0] obtain emp where "e0 = blank_entry days emp"
    by blast
  then have sh0: "re_shifts e0 = (\<lambda>k. if k \<in> set days then Some [] else None)"
      and h0: "re_total_hours e0 = 0"
    by (simp_all add: blank_entry_shifts) (simp add: blank_entry_def)
  then have dom0: "dom (re_shifts e0) = set days"
    by (auto simp: dom_def)
  from fill_entry [where rd = "init_roster days employees" and c = ?c and e = e0 and ss = ?ms, OF e0]
  obtain e'
    where e': "fold fill_shift ?ms (init_roster days employees) ?c = Some e'"
      and d': "dom (re_shifts e') = dom (re_shifts e0)"
      and c': "\<forall>d \<in> dom (re_shifts e0). re_shifts e' d =
                 (if [s \<leftarrow> ?ms. shift_employee_code s = ?c \<and> shift_date s = d] = []
                  then re_shifts e0 d
                  else Some (shift_period
                         (last [s \<leftarrow> ?ms. shift_employee_code s = ?c \<and> shift_date s = d])))"
      and h': "re_total_hours e' = re_total_hours e0
               + sum_list (map (\<lambda>s. hours (shift_period s))
                   [s \<leftarrow> ?ms. shift_employee_code s = ?c \<and> shift_date s \<in> dom (re_shifts e0)])"
    by blast
  have cells: "\<forall>day \<in> set days. re_shifts e' day = Some (spec_grid_cell shifts ?c day)"
  proof
    fix day
    assume day: "day \<in> set days"
    with assms(1) have "startswith day month" by blast
    from month_filter_day [where shifts = shifts and c = ?c, OF this] c' day dom0 sh0
    show "re_shifts e' day = Some (spec_grid_cell shifts ?c day)"
      by (simp add: spec_grid_cell_def Let_def)
  qed
  have "re_total_hours e' =
          sum_list (map (\<lambda>s. hours (shift_period s))
            [s \<leftarrow> shifts. shift_employee_code s = ?c \<and> shift_date s \<in> set days])"
    using h' h0 dom0 month_filter_days [where shifts = shifts and c = ?c, OF assms(1)] by simp
  with e' d' dom0 cells show ?thesis
    by simp
qed


lemma digits_small: "n < 10 \<Longrightarrow> digits n = [digit_char n]"
  by (simp add: digits.simps [of n])

lemma digits_step: "10 \<le> n \<Longrightarrow> digits n = digits (n div 10) @ [digit_char (n mod 10)]"
  by (simp add: digits.simps [of n])

lemma fmt0d_examples:
  "fmt0d 4 2024 = ''2024''" "fmt0d 2 3 = ''03''" "fmt0d 2 1 = ''01''" "fmt0d 2 2 = ''02''"
  "fmt0d 2 31 = ''31''"
  by (simp_all add: fmt0d_def digits_step digits_small digit_char_def char_of_eq_iff)

lemma ex_march_days: "spec_days_in_month 2024 3 = 31"
  by (simp add: spec_days_in_month_def)

text \<open>The view the roster page computes for a well-formed month \<open>YYYY-MM\<close>.\<close>

lemma roster_valid:
  assumes "1 \<le> y" and "1 \<le> m" "m \<le> 12"
      and "form_get args ''month'' (strftime_ym now) = fmt0d 4 y @ ''-'' @ fmt0d 2 m"
      and "get_employees st = Inr employees" and "get_shifts st = Inr shifts"
  shows "roster args now st =
           (None,
            \<lparr>rv_roster_data =
               fold fill_shift
                 [s \<leftarrow> shifts. startswith (shift_date s) (fmt0d 4 y @ ''-'' @ fmt0d 2 m)]
                 (init_roster
                    (map (\<lambda>d. (fmt0d 4 y @ ''-'' @ fmt0d 2 m) @ ''-'' @ fmt0d 2 d)
                       [1..spec_days_in_month y m])
                    employees),
             rv_days = map (\<lambda>d. (fmt0d 4 y @ ''-'' @ fmt0d 2 m) @ ''-'' @ fmt0d 2 d)
                         [1..spec_days_in_month y m],
             rv_month = fmt0d 4 y @ ''-'' @ fmt0d 2 m, rv_employees = employees\<rparr>)"
  using roster_body_valid [OF assms(1,2,3) refl assms(5,6)]
  by (simp add: roster_def assms(4))

text \<open>
  C2. For a month \<open>YYYY-MM\<close> with year at least 1 and month between 1 and 12, and any
  employee and shift collections: the roster lists the days \<open>YYYY-MM-01\<close> up to
  \<open>YYYY-MM-n\<close>, where \<open>n\<close> is the calendar length of the month (28 or 29 for February by
  the leap-year rule, 30 for April, June, September and November, 31 otherwise); every
  employee has an entry whose cells are exactly those days; and each cell holds the
  period of the last shift record, in collection order, of that employee on that day,
  or the empty string when there is none.
\<close>

theorem roster_grid_complete:
  assumes "1 \<le> y" and "1 \<le> m" "m \<le> 12"
      and "form_get args ''month'' (strftime_ym now) = fmt0d 4 y @ ''-'' @ fmt0d 2 m"
      and "get_employees st = Inr employees" and "get_shifts st = Inr shifts"
  shows "fst (roster args now st) = None
       \<and> rv_days (snd (roster args now st))
           = map (\<lambda>d. fmt0d 4 y @ ''-'' @ fmt0d 2 m @ ''-'' @ fmt0d 2 d) [1..spec_days_in_month y m]
       \<and> length (rv_days (snd (roster args now st))) = nat (spec_days_in_month y m)
       \<and> (\<forall>e \<in> set employees. \<exists>entry.
             rv_roster_data (snd (roster args now st)) (emp_code e) = Some entry
           \<and> dom (re_shifts entry) = set (rv_days (snd (roster args now st)))
           \<and> (\<forall>day \<in> set (rv_days (snd (roster args now st))).
                 re_shifts entry day = Some (spec_grid_cell shifts (emp_code e) day)))"
proof -
  let ?month = "fmt0d 4 y @ ''-'' @ fmt0d 2 m"
  let ?days = "map (\<lambda>d. ?month @ ''-'' @ fmt0d 2 d) [1..spec_days_in_month y m]"
  let ?v = "\<lparr>rv_roster_data =
                  fold fill_shift [s \<leftarrow> shifts. startswith (shift_date s) ?month]
                    (init_roster ?days employees),
                rv_days = ?days, rv_month = ?month, rv_employees = employees\<rparr>"
  have r: "roster args now st = (None, ?v)"
    by (rule roster_valid [OF assms])
  have len: "length ?days = nat (spec_days_in_month y m)"
    by simp
  have "\<forall>e \<in> set employees. \<exists>entry.
             rv_roster_data ?v (emp_code e) = Some entry
           \<and> dom (re_shifts entry) = set ?days
           \<and> (\<forall>day \<in> set ?days. re_shifts entry day = Some (spec_grid_cell shifts (emp_code e) day))"
  proof
    fix e
    assume "e \<in> set employees"
    from roster_entry_of_employee
      [where shifts = shifts, OF days_start_with_month [of ?month "[1..spec_days_in_month y m]"] this]
    show "\<exists>entry. rv_roster_data ?v (emp_code e) = Some entry
           \<and> dom (re_shifts entry) = set ?days
           \<and> (\<forall>day \<in> set ?days. re_shifts entry day = Some (spec_grid_cell shifts (emp_code e) day))"
      by auto
  qed
  with r len show ?thesis
    by simp
qed

lemma ex_roster_view:
  "snd (roster ex_roster_args ex_now ex_store) =
     \<lparr>rv_roster_data =
        fold fill_shift [s \<leftarrow> [ex_shift1, ex_shift2]. startswith (shift_date s) ''2024-03'']
          (init_roster (map (\<lambda>d. ''2024-03-'' @ fmt0d 2 d) [1..31]) [ex_emp1, ex_emp2]),
      rv_days = map (\<lambda>d. ''2024-03-'' @ fmt0d 2 d) [1..31],
      rv_month = ''2024-03'', rv_employees = [ex_emp1, ex_emp2]\<rparr>"
proof -
  have month: "form_get ex_roster_args ''month'' (strftime_ym ex_now) = fmt0d 4 2024 @ ''-'' @ fmt0d 2 3"
    by (simp add: ex_roster_args_def form_get_def fmt0d_examples)
  from roster_valid [of 2024 3 ex_roster_args ex_now ex_store "[ex_emp1, ex_emp2]" "[ex_shift1, ex_shift2]",
      OF _ _ _ month ex_store_loads(1) ex_store_loads(3)]
  show ?thesis
    by (simp add: ex_march_days fmt0d_examples)
qed

lemma ex_roster_days:
  "''2024-03-01'' \<in> set (rv_days (snd (roster ex_roster_args ex_now ex_store)))"
  "''2024-03-02'' \<in> set (rv_days (snd (roster ex_roster_args ex_now ex_store)))"
proof -
  show "''2024-03-01'' \<in> set (rv_days (snd (roster ex_roster_args ex_now ex_store)))"
    unfolding ex_roster_view
    by (simp add: image_iff) (rule bexI [where x = 1], simp_all add: fmt0d_examples)
  show "''2024-03-02'' \<in> set (rv_days (snd (roster ex_roster_args ex_now ex_store)))"
    unfolding ex_roster_view
    by (simp add: image_iff) (rule bexI [where x = 2], simp_all add: fmt0d_examples)
qed

theorem roster_grid_complete_witness:
  "get_employees ex_store = Inr [ex_emp1, ex_emp2]
 \<and> get_shifts ex_store = Inr [ex_shift1, ex_shift2]
 \<and> fst (roster ex_roster_args ex_now ex_store) = None
 \<and> length (rv_days (snd (roster ex_roster_args ex_now ex_store))) = 31
 \<and> (\<exists>entry. rv_roster_data (snd (roster ex_roster_args ex_now ex_store)) ''E1'' = Some entry
        \<and> re_shifts entry ''2024-03-01'' = Some ''N''
        \<and> re_shifts entry ''2024-03-02'' = Some [])"
proof -
  let ?v = "snd (roster ex_roster_args ex_now ex_store)"
  have month: "form_get ex_roster_args ''month'' (strftime_ym ex_now) = fmt0d 4 2024 @ ''-'' @ fmt0d 2 3"
    by (simp add: ex_roster_args_def form_get_def fmt0d_examples)
  note r = roster_grid_complete
      [of 2024 3 ex_roster_args ex_now ex_store "[ex_emp1, ex_emp2]" "[ex_shift1, ex_shift2]",
       OF _ _ _ month ex_store_loads(1) ex_store_loads(3), simplified ex_march_days fmt0d_examples]
  from r have none: "fst (roster ex_roster_args ex_now ex_store) = None"
    and len: "length (rv_days ?v) = 31"
    by simp_all
  from r obtain entry where en: "rv_roster_data ?v (emp_code ex_emp1) = Some entry"
    and cells: "\<forall>day \<in> set (rv_days ?v). re_shifts entry day =
                  Some (spec_grid_cell [ex_shift1, ex_shift2] (emp_code ex_emp1) day)"
    by auto
  from cells ex_roster_days(1) have "re_shifts entry ''2024-03-01'' = Some ''N''"
    by (simp add: spec_grid_cell_def ex_shift1_def ex_shift2_def ex_emp1_def)
  moreover from cells ex_roster_days(2) have "re_shifts entry ''2024-03-02'' = Some []"
    by (simp add: spec_grid_cell_def ex_shift1_def ex_shift2_def ex_emp1_def)
  ultimately show ?thesis
    using none len en by (simp add: ex_store_loads ex_emp1_def)
qed

text \<open>
  C3. Under the same conditions, the total hours of every employee's roster entry are
  12 times the number of that employee's shift records dated on a day of the month
  with period \<open>D\<close>, plus 12 times those with period \<open>N\<close>, plus 24 times those with
  period \<open>F\<close>; records with any other period, the empty one included, add nothing.
\<close>

theorem roster_total_hours:
  assumes "1 \<le> y" and "1 \<le> m" "m \<le> 12"
      and "form_get args ''month'' (strftime_ym now) = fmt0d 4 y @ ''-'' @ fmt0d 2 m"
      and "get_employees st = Inr employees" and "get_shifts st = Inr shifts"
  shows "\<forall>e \<in> set employees. \<exists>entry.
             rv_roster_data (snd (roster args now st)) (emp_code e) = Some entry
           \<and> re_total_hours entry =
               12 * int (length [s \<leftarrow> shifts. shift_employee_code s = emp_code e
                    \<and> shift_date s \<in> set (rv_days (snd (roster args now st)))
                    \<and> shift_period s = ''D''])
             + 12 * int (length [s \<leftarrow> shifts. shift_employee_code s = emp_code e
                    \<and> shift_date s \<in> set (rv_days (snd (roster args now st)))
                    \<and> shift_period s = ''N''])
             + 24 * int (length [s \<leftarrow> shifts. shift_employee_code s = emp_code e
                    \<and> shift_date s \<in> set (rv_days (snd (roster args now st)))
                    \<and> shift_period s = ''F''])"
proof
  fix e
  assume e: "e \<in> set employees"
  let ?month = "fmt0d 4 y @ ''-'' @ fmt0d 2 m"
  let ?days = "map (\<lambda>d. ?month @ ''-'' @ fmt0d 2 d) [1..spec_days_in_month y m]"
  let ?v = "\<lparr>rv_roster_data =
                  fold fill_shift [s \<leftarrow> shifts. startswith (shift_date s) ?month]
                    (init_roster ?days employees),
                rv_days = ?days, rv_month = ?month, rv_employees = employees\<rparr>"
  have r: "snd (roster args now st) = ?v"
    using roster_valid [OF assms] by simp
  from roster_entry_of_employee
      [where shifts = shifts, OF days_start_with_month [of ?month "[1..spec_days_in_month y m]"] e]
  obtain entry where en: "rv_roster_data ?v (emp_code e) = Some entry"
    and h: "re_total_hours entry =
               sum_list (map (\<lambda>s. hours (shift_period s))
                 [s \<leftarrow> shifts. shift_employee_code s = emp_code e \<and> shift_date s \<in> set ?days])"
    by auto
  have f: "\<And>p. [s \<leftarrow> [s \<leftarrow> shifts. shift_employee_code s = emp_code e \<and> shift_date s \<in> set ?days].
                 shift_period s = p]
            = [s \<leftarrow> shifts. shift_employee_code s = emp_code e \<and> shift_date s \<in> set ?days
                 \<and> shift_period s = p]"
    by (simp add: conj_ac cong: conj_cong)
  show "\<exists>entry.
             rv_roster_data (snd (roster args now st)) (emp_code e) = Some entry
           \<and> re_total_hours entry =
               12 * int (length [s \<leftarrow> shifts. shift_employee_code s = emp_code e
                    \<and> shift_date s \<in> set (rv_days (snd (roster args now st)))
                    \<and> shift_period s = ''D''])
             + 12 * int (length [s \<leftarrow> shifts. shift_employee_code s = emp_code e
                    \<and> shift_date s \<in> set (rv_days (snd (roster args now st)))
                    \<and> shift_period s = ''N''])
             + 24 * int (length [s \<leftarrow> shifts. shift_employee_code s = emp_code e
                    \<and> shift_date s \<in> set (rv_days (snd (roster args now st)))
                    \<and> shift_period s = ''F''])"
    unfolding r using en h sum_hours [of "[s \<leftarrow> shifts. shift_employee_code s = emp_code e \<and> shift_date s \<in> set ?days]"]
    unfolding f by simp
qed

theorem roster_total_hours_witness:
  "get_employees ex_store = Inr [ex_emp1, ex_emp2]
 \<and> get_shifts ex_store = Inr [ex_shift1, ex_shift2]
 \<and> shift_period ex_shift1 = ''D'' \<and> shift_period ex_shift2 = ''N''
 \<and> (\<exists>entry. rv_roster_data (snd (roster ex_roster_args ex_now ex_store)) ''E1'' = Some entry
        \<and> re_total_hours entry = 24)
 \<and> (\<exists>entry. rv_roster_data (snd (roster ex_roster_args ex_now ex_store)) ''E2'' = Some entry
        \<and> re_total_hours entry = 0)"
proof -
  let ?v = "snd (roster ex_roster_args ex_now ex_store)"
  have month: "form_get ex_roster_args ''month'' (strftime_ym ex_now) = fmt0d 4 2024 @ ''-'' @ fmt0d 2 3"
    by (simp add: ex_roster_args_def form_get_def fmt0d_examples)
  note r = roster_total_hours
      [of 2024 3 ex_roster_args ex_now ex_store "[ex_emp1, ex_emp2]" "[ex_shift1, ex_shift2]",
       OF _ _ _ month ex_store_loads(1) ex_store_loads(3)]
  from r obtain entry1 where e1: "rv_roster_data ?v (emp_code ex_emp1) = Some entry1"
    and h1: "re_total_hours entry1 =
               12 * int (length [s \<leftarrow> [ex_shift1, ex_shift2]. shift_employee_code s = emp_code ex_emp1
                    \<and> shift_date s \<in> set (rv_days ?v) \<and> shift_period s = ''D''])
             + 12 * int (length [s \<leftarrow> [ex_shift1, ex_shift2]. shift_employee_code s = emp_code ex_emp1
                    \<and> shift_date s \<in> set (rv_days ?v) \<and> shift_period s = ''N''])
             + 24 * int (length [s \<leftarrow> [ex_shift1, ex_shift2]. shift_employee_code s = emp_code ex_emp1
                    \<and> shift_date s \<in> set (rv_days ?v) \<and> shift_period s = ''F''])"
    by auto
  from r obtain entry2 where e2: "rv_roster_data ?v (emp_code ex_emp2) = Some entry2"
    and h2: "re_total_hours entry2 =
               12 * int (length [s \<leftarrow> [ex_shift1, ex_shift2]. shift_employee_code s = emp_code ex_emp2
                    \<and> shift_date s \<in> set (rv_days ?v) \<and> shift_period s = ''D''])
             + 12 * int (length [s \<leftarrow> [ex_shift1, ex_shift2]. shift_employee_code s = emp_code ex_emp2
                    \<and> shift_date s \<in> set (rv_days ?v) \<and> shift_period s = ''N''])
             + 24 * int (length [s \<leftarrow> [ex_shift1, ex_shift2]. shift_employee_code s = emp_code ex_emp2
                    \<and> shift_date s \<in> set (rv_days ?v) \<and> shift_period s = ''F''])"
    by auto
  have d: "shift_date ex_shift1 \<in> set (rv_days ?v)" "shift_date ex_shift2 \<in> set (rv_days ?v)"
    using ex_roster_days(1) by (simp_all add: ex_shift1_def ex_shift2_def)
  from h1 d have "re_total_hours entry1 = 24"
    by (simp add: ex_shift1_def ex_shift2_def ex_emp1_def)
  moreover from h2 have "re_total_hours entry2 = 0"
    by (simp add: ex_shift1_def ex_shift2_def ex_emp2_def)
  ultimately show ?thesis
    using e1 e2 by (simp add: ex_store_loads ex_emp1_def ex_emp2_def ex_shift1_def ex_shift2_def)
qed

section \<open>Properties of the dashboard chart\<close>

lemma ord2ymd_march_2024:
  assumes "0 \<le> k" "k < 31"
  shows "ord2ymd (738946 + k) = \<lparr>dt_year = 2024, dt_month = 3, dt_day = k + 1\<rparr>"
proof -
  have d400: "(738945 + k) div 146097 = 5" and m400: "(738945 + k) mod 146097 = 8460 + k"
    using assms by (auto intro: int_div_pos_eq [where r = "8460 + k"] int_mod_pos_eq [where q = 5])
  have d100: "(8460 + k) div 36524 = 0" and m100: "(8460 + k) mod 36524 = 8460 + k"
    using assms by simp_all
  have d4: "(8460 + k) div 1461 = 5" and m4: "(8460 + k) mod 1461 = 1155 + k"
    using assms by (auto intro: int_div_pos_eq [where r = "1155 + k"] int_mod_pos_eq [where q = 5])
  have d1: "(1155 + k) div 365 = 3" and m1: "(1155 + k) mod 365 = 60 + k"
    using assms by (auto intro: int_div_pos_eq [where r = "60 + k"] int_mod_pos_eq [where q = 3])
  have mon: "(110 + k) div 32 = (if k < 18 then 3 else 4)"
    using assms by (auto intro: int_div_pos_eq [where r = "14 + k"] int_div_pos_eq [where r = "k - 18"])
  show ?thesis
    using assms
    by (simp add: ord2ymd_def Let_def d400 m400 d100 m100 d4 m4 d1 m1 mon
          days_before_month_tab_def mdays_def)
qed

lemma chart_loop_ok:
  assumes "\<forall>i \<in> set is. add_days start (int i) = Inr (f i)"
  shows "chart_loop start shifts is =
           Inr (map (\<lambda>i. \<lparr>cp_date = strftime_ymd (f i),
                           cp_count = int (length [s \<leftarrow> shifts. shift_date s = strftime_ymd (f i)])\<rparr>) is)"
  using assms by (induction "is") (simp_all add: and_then_def)

lemma chart_loop_length:
  "chart_loop start shifts is = Inr pts \<Longrightarrow> length pts = length is"
  by (induction "is" arbitrary: pts) (auto simp: and_then_def Let_def split: sum.splits)

lemma chart_data_length: "chart_data now shifts = Inr pts \<Longrightarrow> length pts = 30"
  by (auto simp: chart_data_def and_then_def split: sum.splits dest: chart_loop_length)

lemma fmt0d_inj:
  assumes "0 \<le> a" "0 \<le> b" "fmt0d w a = fmt0d w b"
  shows "a = b"
proof -
  have "Inr a = py_int (fmt0d w a)"
    using assms(1) by (simp add: py_int_fmt0d)
  also have "\<dots> = py_int (fmt0d w b)"
    by (simp only: assms(3))
  also have "\<dots> = Inr b"
    using assms(2) by (simp add: py_int_fmt0d)
  finally show ?thesis by simp
qed

lemma fmt0d_more_examples: "fmt0d 2 30 = ''30''"
  by (simp_all add: fmt0d_def digits_step digits_small digit_char_def char_of_eq_iff)

lemma py_int_examples: "py_int ''2'' = Inr 2" "py_int ''1'' = Inr 1" "py_int ''0'' = Inr 0"
  by (simp_all add: py_int_def strip_def isspace_def int_unsigned_def is_digit_def digit_val_def)

lemma ex_now_ordinal: "ymd2ord 2024 3 31 = 738976" "ymd2ord 2024 3 1 = 738946"
  by (simp_all add: ymd2ord_def days_before_year_def days_before_month_def
        days_before_month_tab_def isleap_def)

lemma ex_start_date:
  "add_days ex_now (- 30) = Inr \<lparr>dt_year = 2024, dt_month = 3, dt_day = 1\<rparr>"
  using ord2ymd_march_2024 [of 0]
  by (simp add: add_days_def ex_now_def ex_now_ordinal maxordinal_def)

lemma ex_march_day:
  "i < 30 \<Longrightarrow> add_days \<lparr>dt_year = 2024, dt_month = 3, dt_day = 1\<rparr> (int i)
      = Inr \<lparr>dt_year = 2024, dt_month = 3, dt_day = int i + 1\<rparr>"
  using ord2ymd_march_2024 [of "int i"]
  by (simp add: add_days_def ex_now_ordinal maxordinal_def)

lemma ex_chart:
  "chart_data ex_now shifts =
     Inr (map (\<lambda>i. \<lparr>cp_date = ''2024-03-'' @ fmt0d 2 (int i + 1),
                     cp_count = int (length [s \<leftarrow> shifts. shift_date s = ''2024-03-'' @ fmt0d 2 (int i + 1)])\<rparr>)
            [0..<30])"
proof -
  have "\<forall>i \<in> set [0..<30]. add_days \<lparr>dt_year = 2024, dt_month = 3, dt_day = 1\<rparr> (int i)
      = Inr \<lparr>dt_year = 2024, dt_month = 3, dt_day = int i + 1\<rparr>"
    by (simp add: ex_march_day)
  from chart_loop_ok [where f = "\<lambda>i. \<lparr>dt_year = 2024, dt_month = 3, dt_day = int i + 1\<rparr>", OF this]
  show ?thesis
    by (simp add: chart_data_def ex_start_date and_then_def strftime_ymd_def fmt0d_examples)
qed

lemma ex_today: "strftime_ymd ex_now = ''2024-03-31''"
  by (simp add: strftime_ymd_def ex_now_def fmt0d_examples)

lemma ex_chart_store_loads:
  "get_employees ex_chart_store = Inr [ex_emp1, ex_emp2]"
  "get_ambulances ex_chart_store = Inr [ex_amb1]"
  "get_shifts ex_chart_store = Inr [ex_shift_yesterday, ex_shift_today]"
  "get_teams ex_chart_store = Inr [ex_team_today]"
  "get_tasks ex_chart_store = Inr []"
  by (simp_all add: ex_chart_store_def get_employees_def get_ambulances_def get_shifts_def
        get_teams_def get_tasks_def load_json_def read_json_def)

lemma ex_dashboard_body:
  "dashboard_body ex_now ex_chart_store =
      Inr \<lparr>dv_total_employees = 2, dv_total_ambulances = 1, dv_ready_ambulances = 1,
           dv_today_shifts = [ex_shift_today],
           dv_chart_data = map (\<lambda>i. \<lparr>cp_date = ''2024-03-'' @ fmt0d 2 (int i + 1),
                     cp_count = int (length [s \<leftarrow> [ex_shift_yesterday, ex_shift_today].
                                        shift_date s = ''2024-03-'' @ fmt0d 2 (int i + 1)])\<rparr>)
            [0..<30],
           dv_total_teams_today = 3, dv_teams_morning = 2, dv_teams_evening = 1,
           dv_teams_full = 0, dv_active_tasks = 0\<rparr>"
proof -
  have ts: "[s \<leftarrow> [ex_shift_yesterday, ex_shift_today]. shift_date s = ''2024-03-31''] = [ex_shift_today]"
    by (simp add: ex_shift_yesterday_def ex_shift_today_def)
  have tt: "[t \<leftarrow> [ex_team_today]. team_date t = ''2024-03-31''] = [ex_team_today]"
    by (simp add: ex_team_today_def)
  have sums: "sum_ints (map team_morning_teams [ex_team_today]) = Inr 2"
    "sum_ints (map team_evening_teams [ex_team_today]) = Inr 1"
    "sum_ints (map team_full_teams [ex_team_today]) = Inr 0"
    by (simp_all add: ex_team_today_def and_then_def py_int_examples)
  have ready: "[a \<leftarrow> [ex_amb1]. amb_status a = status_ready] = [ex_amb1]"
    by (simp add: ex_amb1_def)
  show ?thesis
    unfolding dashboard_body_def ex_chart_store_loads and_then_def ex_today Let_def
    by (simp only: sum.case ts tt sums ready ex_chart list.size length_Cons
          of_nat_Suc of_nat_0) simp
qed

lemma ex_day_30: "fmt0d 2 (int i + 1) = ''30'' \<longleftrightarrow> i = 29"
proof -
  have "fmt0d 2 (int i + 1) = fmt0d 2 30 \<longleftrightarrow> int i + 1 = 30"
    using fmt0d_inj [of "int i + 1" 30 2] by auto
  then show ?thesis
    unfolding fmt0d_more_examples by auto
qed

lemma ex_day_31: "fmt0d 2 (int i + 1) = ''31'' \<longleftrightarrow> i = 30"
proof -
  have "fmt0d 2 (int i + 1) = fmt0d 2 31 \<longleftrightarrow> int i + 1 = 31"
    using fmt0d_inj [of "int i + 1" 31 2] by auto
  then show ?thesis
    unfolding fmt0d_examples by auto
qed

lemma ex_counts:
  "i < 30 \<Longrightarrow>
   int (length [s \<leftarrow> [ex_shift_yesterday, ex_shift_today].
                 shift_date s = ''2024-03-'' @ fmt0d 2 (int i + 1)])
     = (if i = 29 then 1 else 0)"
proof -
  assume i: "i < 30"
  have y: "shift_date ex_shift_yesterday = ''2024-03-'' @ fmt0d 2 (int i + 1) \<longleftrightarrow> i = 29"
    using ex_day_30 [of i] by (auto simp: ex_shift_yesterday_def)
  have t: "shift_date ex_shift_today \<noteq> ''2024-03-'' @ fmt0d 2 (int i + 1)"
    using ex_day_31 [of i] i by (auto simp: ex_shift_today_def)
  show ?thesis
    by (simp only: filter.simps y t if_False list.size length_Cons split: if_splits) simp
qed

lemma ex_dashboard:
  "dashboard ex_now ex_chart_store =
      (None, \<lparr>dv_total_employees = 2, dv_total_ambulances = 1, dv_ready_ambulances = 1,
           dv_today_shifts = [ex_shift_today],
           dv_chart_data = map (\<lambda>i. \<lparr>cp_date = ''2024-03-'' @ fmt0d 2 (int i + 1),
                     cp_count = int (length [s \<leftarrow> [ex_shift_yesterday, ex_shift_today].
                                        shift_date s = ''2024-03-'' @ fmt0d 2 (int i + 1)])\<rparr>)
            [0..<30],
           dv_total_teams_today = 3, dv_teams_morning = 2, dv_teams_evening = 1,
           dv_teams_full = 0, dv_active_tasks = 0\<rparr>)"
  unfolding dashboard_def ex_dashboard_body by (simp only: sum.case)

lemma ex_chart_dates:
  "map cp_date (map (\<lambda>i. \<lparr>cp_date = ''2024-03-'' @ fmt0d 2 (int i + 1),
                     cp_count = int (length [s \<leftarrow> [ex_shift_yesterday, ex_shift_today].
                                        shift_date s = ''2024-03-'' @ fmt0d 2 (int i + 1)])\<rparr>)
            [0..<30])
     = map (\<lambda>i. ''2024-03-'' @ fmt0d 2 (int i + 1)) [0..<30]"
  by (simp only: map_map o_def chart_point.simps)

lemma ex_chart_counts:
  "map cp_count (map (\<lambda>i. \<lparr>cp_date = ''2024-03-'' @ fmt0d 2 (int i + 1),
                     cp_count = int (length [s \<leftarrow> [ex_shift_yesterday, ex_shift_today].
                                        shift_date s = ''2024-03-'' @ fmt0d 2 (int i + 1)])\<rparr>)
            [0..<30])
     = map (\<lambda>i. if i = 29 then 1 else 0) [0..<30]"
  unfolding map_map o_def chart_point.simps
  by (rule map_cong [OF refl]) (simp only: ex_counts set_upt atLeastLessThan_iff)

lemma ex_chart_last:
  "last (map (\<lambda>i. \<lparr>cp_date = ''2024-03-'' @ fmt0d 2 (int i + 1),
                     cp_count = int (length [s \<leftarrow> [ex_shift_yesterday, ex_shift_today].
                                        shift_date s = ''2024-03-'' @ fmt0d 2 (int i + 1)])\<rparr>)
            [0..<30])
     = \<lparr>cp_date = ''2024-03-30'', cp_count = 1\<rparr>"
proof -
  have ne: "[0..<30::nat] \<noteq> []" by simp
  have l: "last [0..<30::nat] = 29"
    by (simp add: last_upt del: upt_Suc)
  have f: "''2024-03-'' @ fmt0d 2 (int 29 + 1) = ''2024-03-30''"
    by (simp add: fmt0d_more_examples)
  have c: "int (length [s \<leftarrow> [ex_shift_yesterday, ex_shift_today]. shift_date s = ''2024-03-30'']) = 1"
    by (simp add: ex_shift_yesterday_def ex_shift_today_def)
  show ?thesis
    unfolding last_map [OF ne] l by (simp only: f c)
qed

lemma ex_chart_misses:
  "''2024-03-31'' \<notin> set (map (\<lambda>i. ''2024-03-'' @ fmt0d 2 (int i + 1)) [0..<30])"
proof
  assume "''2024-03-31'' \<in> set (map (\<lambda>i. ''2024-03-'' @ fmt0d 2 (int i + 1)) [0..<30])"
  then obtain i where i: "i < 30" and "''2024-03-31'' = ''2024-03-'' @ fmt0d 2 (int i + 1)"
    by (auto simp del: upt_Suc)
  then have "fmt0d 2 (int i + 1) = ''31''"
    by simp
  with ex_day_31 [of i] i show False
    by simp
qed

text \<open>
  C1. The dashboard of 2024-03-31, with one shift dated 2024-03-30 and one dated
  2024-03-31: the chart has 30 points, oldest first, for 2024-03-01 up to 2024-03-30,
  each counting the shift records with its date string. The last point is the day
  before today; today, whose shift is listed among today's shifts, has no point.
\<close>

theorem dashboard_chart_misses_today:
  "strftime_ymd ex_now = ''2024-03-31''
 \<and> fst (dashboard ex_now ex_chart_store) = None
 \<and> dv_today_shifts (snd (dashboard ex_now ex_chart_store)) = [ex_shift_today]
 \<and> length (dv_chart_data (snd (dashboard ex_now ex_chart_store))) = 30
 \<and> map cp_date (dv_chart_data (snd (dashboard ex_now ex_chart_store)))
      = map (\<lambda>i. ''2024-03-'' @ fmt0d 2 (int i + 1)) [0..<30]
 \<and> map cp_count (dv_chart_data (snd (dashboard ex_now ex_chart_store)))
      = map (\<lambda>i. if i = 29 then 1 else 0) [0..<30]
 \<and> last (dv_chart_data (snd (dashboard ex_now ex_chart_store)))
      = \<lparr>cp_date = ''2024-03-30'', cp_count = 1\<rparr>
 \<and> ''2024-03-31'' \<notin> set (map cp_date (dv_chart_data (snd (dashboard ex_now ex_chart_store))))"
proof -
  have len: "length (dv_chart_data (snd (dashboard ex_now ex_chart_store))) = 30"
    unfolding ex_dashboard snd_conv dashboard_view.simps by (simp del: upt_Suc)
  have dates: "map cp_date (dv_chart_data (snd (dashboard ex_now ex_chart_store)))
      = map (\<lambda>i. ''2024-03-'' @ fmt0d 2 (int i + 1)) [0..<30]"
    unfolding ex_dashboard snd_conv dashboard_view.simps by (rule ex_chart_dates)
  have counts: "map cp_count (dv_chart_data (snd (dashboard ex_now ex_chart_store)))
      = map (\<lambda>i. if i = 29 then 1 else 0) [0..<30]"
    unfolding ex_dashboard snd_conv dashboard_view.simps by (rule ex_chart_counts)
  have lst: "last (dv_chart_data (snd (dashboard ex_now ex_chart_store)))
      = \<lparr>cp_date = ''2024-03-30'', cp_count = 1\<rparr>"
    unfolding ex_dashboard snd_conv dashboard_view.simps by (rule ex_chart_last)
  have miss: "''2024-03-31'' \<notin> set (map cp_date (dv_chart_data (snd (dashboard ex_now ex_chart_store))))"
    unfolding dates by (rule ex_chart_misses)
  have none: "fst (dashboard ex_now ex_chart_store) = None"
    unfolding ex_dashboard by (simp only: fst_conv)
  have today: "dv_today_shifts (snd (dashboard ex_now ex_chart_store)) = [ex_shift_today]"
    unfolding ex_dashboard snd_conv by (simp only: dashboard_view.simps)
  from ex_today none today len dates counts lst miss show ?thesis
    by (intro conjI)
qed

end
